theory Spec2Isabelle
  imports Complex_Main
begin

section \<open>Numbers and price series\<close>

text \<open>
  The scripts compute with IEEE doubles.  The model is exact: a Python float is a real
  number or NaN (\<open>None\<close>), rounding and overflow are not modelled, and the input data
  hold no infinities.  The one exception is \<open>detect_cme_gap\<close>, whose answer turns on a
  rounded product: there the rounding is written out.  Division of two Python floats raises \<open>ZeroDivisionError\<close> on a zero
  divisor; the places where the source divides are written out with that branch.
  Inside pandas and numpy a division by zero yields an infinity or NaN instead; those
  values have the type \<open>npfloat\<close> below.
\<close>

type_synonym pyfloat = "real option"

abbreviation nan :: pyfloat where
  "nan \<equiv> None"

definition isnan :: "pyfloat \<Rightarrow> bool" where
  "isnan x = (x = None)"

text \<open>Arithmetic propagates NaN; every comparison with NaN is false.\<close>

definition f_add :: "pyfloat \<Rightarrow> pyfloat \<Rightarrow> pyfloat" where
  "f_add a b = (case (a, b) of (Some x, Some y) \<Rightarrow> Some (x + y) | _ \<Rightarrow> None)"

definition f_sub :: "pyfloat \<Rightarrow> pyfloat \<Rightarrow> pyfloat" where
  "f_sub a b = (case (a, b) of (Some x, Some y) \<Rightarrow> Some (x - y) | _ \<Rightarrow> None)"

definition f_mul :: "pyfloat \<Rightarrow> pyfloat \<Rightarrow> pyfloat" where
  "f_mul a b = (case (a, b) of (Some x, Some y) \<Rightarrow> Some (x * y) | _ \<Rightarrow> None)"

definition f_lt :: "pyfloat \<Rightarrow> pyfloat \<Rightarrow> bool" where
  "f_lt a b = (case (a, b) of (Some x, Some y) \<Rightarrow> x < y | _ \<Rightarrow> False)"

definition f_le :: "pyfloat \<Rightarrow> pyfloat \<Rightarrow> bool" where
  "f_le a b = (case (a, b) of (Some x, Some y) \<Rightarrow> x \<le> y | _ \<Rightarrow> False)"

definition f_gt :: "pyfloat \<Rightarrow> pyfloat \<Rightarrow> bool" where
  "f_gt a b = f_lt b a"

definition f_ge :: "pyfloat \<Rightarrow> pyfloat \<Rightarrow> bool" where
  "f_ge a b = f_le b a"

text \<open>One row of an OHLCV data frame; a data frame column is read off a list of rows.\<close>

record bar =
  Open :: pyfloat
  High :: pyfloat
  Low :: pyfloat
  Close :: pyfloat
  Volume :: pyfloat

text \<open>
  \<open>safe_float\<close> maps a scalar to a Python float and anything it cannot convert to NaN;
  on a value that is already a float or NaN it is the identity.
\<close>

definition safe_float :: "'a \<Rightarrow> 'a" where
  "safe_float x = x"

text \<open>\<open>s.iloc[i]\<close> with Python's negative indices; \<open>None\<close> is the \<open>IndexError\<close>.\<close>

definition iloc :: "'a list \<Rightarrow> int \<Rightarrow> 'a option" where
  "iloc xs i =
     (if 0 \<le> i \<and> i < int (length xs) then Some (xs ! nat i)
      else if i < 0 \<and> - i \<le> int (length xs) then Some (xs ! nat (int (length xs) + i))
      else None)"

text \<open>\<open>df.iloc[-k:]\<close>: the last \<open>k\<close> rows, all of the rows when there are fewer or \<open>k = 0\<close>.\<close>

definition tail_rows :: "nat \<Rightarrow> 'a list \<Rightarrow> 'a list" where
  "tail_rows k xs = (if k = 0 then xs else drop (length xs - k) xs)"

text \<open>
  What \<open>yf.download\<close> hands back: an exception with its message, or a frame.  A frame
  records whether the five required columns are all present, and its rows.
\<close>

record frame =
  has_required_cols :: bool
  rows :: "bar list"

datatype download = Download_Failed string | Downloaded frame

definition empty_frame :: frame where
  "empty_frame = \<lparr>has_required_cols = False, rows = []\<rparr>"

section \<open>Pivot points\<close>

text \<open>
  \<open>calculate_pivot_points\<close> returns the tuple \<open>(PP, R1, S1, df_1d, error)\<close>; the error is
  \<open>None\<close> on success.  The download is its argument here.  The last \<open>except\<close> of the
  source would catch an \<open>IndexError\<close> of \<open>iloc[-2]\<close>, which the test of the length
  rules out.
\<close>

definition calculate_pivot_points ::
  "download \<Rightarrow> pyfloat \<times> pyfloat \<times> pyfloat \<times> frame \<times> string option" where
  "calculate_pivot_points dl =
     (case dl of
        Download_Failed e \<Rightarrow> (nan, nan, nan, empty_frame, Some (''Error descarga: '' @ e))
      | Downloaded df_1d \<Rightarrow>
          if rows df_1d = [] \<or> length (rows df_1d) < 2 \<or> \<not> has_required_cols df_1d
          then (nan, nan, nan, df_1d, Some ''Datos insuficientes'')
          else
            (case iloc (rows df_1d) (- 2) of
               None \<Rightarrow> (nan, nan, nan, df_1d, Some ''Error: IndexError'')
             | Some prev \<Rightarrow>
                 (case (safe_float (High prev), safe_float (Low prev), safe_float (Close prev)) of
                    (Some H_prev, Some L_prev, Some C_prev) \<Rightarrow>
                      (let PP = (H_prev + L_prev + C_prev) / 3;
                           R1 = (2 * PP) - L_prev;
                           S1 = (2 * PP) - H_prev
                       in (Some PP, Some R1, Some S1, df_1d, None))
                  | _ \<Rightarrow> (nan, nan, nan, df_1d, Some ''Valores invalidos''))))"

section \<open>Active gap detection\<close>

datatype gap_signal = SHORT_TO_FILL | LONG_TO_FILL | NO_GAP

text \<open>
  \<open>detect_cme_gap\<close> of the first strategy script (the v2 and liquidation scripts carry the
  same function): the current price against the close of the second-to-last daily row,
  with the threshold fixed at 0.5 percent.

  The answer of this function turns on the rounding of the two products it compares the
  price with, so here, and only here, the rounding of doubles is part of the model.  Each
  operation of the source that rounds, the literal \<open>0.005\<close>, the sums \<open>1 + THRESHOLD_PCT\<close> and
  \<open>1 - THRESHOLD_PCT\<close> and the two products, is followed by the rounding function \<open>rnd\<close>, a
  parameter.  With the identity for \<open>rnd\<close> the arithmetic is exact.  \<open>round_double\<close> is the
  rounding of IEEE doubles: to the nearest number with a significand of 53 bits, a tie
  going to the even significand.  \<open>exponent_of\<close> finds the binary exponent of a positive
  number by halving and doubling, at most 1100 times, \<open>ulp_of\<close> is the distance of two
  neighbouring doubles at that exponent.  Overflow and the subnormal numbers are left
  out: \<open>round_double\<close> is the rounding of the machine for magnitudes from \<open>2 ^ -1022\<close> up
  to the largest double.
\<close>

primrec exponent_of :: "nat \<Rightarrow> real \<Rightarrow> int" where
  "exponent_of 0 x = 0"
| "exponent_of (Suc n) x =
     (if 2 \<le> x then exponent_of n (x / 2) + 1
      else if x < 1 then exponent_of n (x * 2) - 1
      else 0)"

definition round_half_even :: "real \<Rightarrow> int" where
  "round_half_even y =
     (let f = \<lfloor>y\<rfloor>; r = y - of_int f in
      if r < 1 / 2 then f else if 1 / 2 < r then f + 1
      else if even f then f else f + 1)"

definition ulp_of :: "int \<Rightarrow> real" where
  "ulp_of e = (if 52 \<le> e then 2 ^ nat (e - 52) else 1 / 2 ^ nat (52 - e))"

definition round_double :: "real \<Rightarrow> real" where
  "round_double x =
     (if x = 0 then 0
      else (let q = ulp_of (exponent_of 1100 \<bar>x\<bar>) in
            sgn x * of_int (round_half_even (\<bar>x\<bar> / q)) * q))"

text \<open>A rounding function is within \<open>u\<close> at \<open>x\<close> when its relative error there is at most \<open>u\<close>.\<close>

definition rounds_within :: "real \<Rightarrow> (real \<Rightarrow> real) \<Rightarrow> real \<Rightarrow> bool" where
  "rounds_within u rnd x = (\<bar>rnd x - x\<bar> \<le> u * \<bar>x\<bar>)"

definition THRESHOLD_PCT :: "(real \<Rightarrow> real) \<Rightarrow> real" where
  "THRESHOLD_PCT rnd = rnd (5 / 1000)"

definition detect_cme_gap :: "(real \<Rightarrow> real) \<Rightarrow> bar list \<Rightarrow> pyfloat \<Rightarrow> gap_signal \<times> pyfloat" where
  "detect_cme_gap rnd df_1d last_price =
     (if df_1d = [] \<or> length df_1d < 2 then (NO_GAP, nan)
      else
        (case iloc df_1d (- 2) of
           None \<Rightarrow> (NO_GAP, nan)
         | Some prev \<Rightarrow>
             (let gap_level = safe_float (Close prev) in
              if isnan gap_level then (NO_GAP, nan)
              else if f_gt last_price
                   (map_option rnd (f_mul gap_level (Some (rnd (1 + THRESHOLD_PCT rnd)))))
                then (SHORT_TO_FILL, gap_level)
              else if f_lt last_price
                   (map_option rnd (f_mul gap_level (Some (rnd (1 - THRESHOLD_PCT rnd)))))
                then (LONG_TO_FILL, gap_level)
              else (NO_GAP, nan))))"

text \<open>
  \<open>detect_cme_gap_improved\<close> of the v3 script.  It looks at the last seven daily rows for
  a pair whose ranges do not overlap, by more than 0.3 percent, keeps the pairs that no
  later row has filled and that lie on the far side of the price, and reports the one
  nearest to the price.  Its \<open>df_4h\<close> argument is never read.
\<close>

datatype gap_type = GAP_UP | GAP_DOWN

datatype fill_direction = DOWN_TO_FILL | UP_TO_FILL

record recent_gap =
  rg_level :: real
  rg_type :: gap_type
  rg_size_pct :: real
  rg_age_days :: nat
  rg_direction :: fill_direction

definition GAP_THRESHOLD_PCT :: real where
  "GAP_THRESHOLD_PCT = 3 / 10"

text \<open>
  The test of the inner loops: some row among \<open>rs\<close> has a numeric value of column \<open>col\<close>
  that satisfies \<open>hit\<close>.
\<close>

definition any_row :: "(bar \<Rightarrow> pyfloat) \<Rightarrow> (real \<Rightarrow> bool) \<Rightarrow> bar list \<Rightarrow> bool" where
  "any_row col hit rs = list_ex (\<lambda>r. case safe_float (col r) of None \<Rightarrow> False | Some v \<Rightarrow> hit v) rs"

text \<open>
  One pass of the loop \<open>for i in range(-7, 0)\<close>: the gap it appends, or \<open>None\<close> when it
  appends nothing.  An \<open>IndexError\<close> or \<open>ZeroDivisionError\<close> inside the \<open>try\<close> skips the pass.
\<close>

definition recent_gap_at :: "bar list \<Rightarrow> pyfloat \<Rightarrow> int \<Rightarrow> recent_gap option" where
  "recent_gap_at df_1d last_price i =
     (if \<bar>i\<bar> > int (length df_1d) then None
      else
        (case (iloc df_1d (i - 1), iloc df_1d i) of
           (Some prev, Some cur) \<Rightarrow>
             (case (safe_float (Close prev), safe_float (High prev), safe_float (Low prev),
                    safe_float (Open cur), safe_float (Low cur), safe_float (High cur)) of
                (Some prev_close, Some prev_high, Some prev_low,
                 Some curr_open, Some curr_low, Some curr_high) \<Rightarrow>
                  if curr_low > prev_high then
                    (if prev_high = 0 then None
                     else
                       (let gap_size_pct = ((curr_low - prev_high) / prev_high) * 100 in
                        if gap_size_pct > GAP_THRESHOLD_PCT then
                          (let gap_filled =
                                 any_row Low (\<lambda>check_low. check_low \<le> prev_high)
                                   (tail_rows (nat (- i)) df_1d)
                           in if \<not> gap_filled \<and> f_lt (Some prev_high) last_price
                              then Some \<lparr>rg_level = prev_high, rg_type = GAP_UP,
                                         rg_size_pct = gap_size_pct, rg_age_days = nat \<bar>i\<bar>,
                                         rg_direction = DOWN_TO_FILL\<rparr>
                              else None)
                        else None))
                  else if curr_high < prev_low then
                    (if curr_high = 0 then None
                     else
                       (let gap_size_pct = ((prev_low - curr_high) / curr_high) * 100 in
                        if gap_size_pct > GAP_THRESHOLD_PCT then
                          (let gap_filled =
                                 any_row High (\<lambda>check_high. check_high \<ge> prev_low)
                                   (tail_rows (nat (- i)) df_1d)
                           in if \<not> gap_filled \<and> f_gt (Some prev_low) last_price
                              then Some \<lparr>rg_level = prev_low, rg_type = GAP_DOWN,
                                         rg_size_pct = gap_size_pct, rg_age_days = nat \<bar>i\<bar>,
                                         rg_direction = UP_TO_FILL\<rparr>
                              else None)
                        else None))
                  else None
              | _ \<Rightarrow> None)
         | _ \<Rightarrow> None))"

definition detect_cme_gap_improved ::
  "bar list \<Rightarrow> pyfloat \<Rightarrow> gap_signal \<times> pyfloat \<times> recent_gap list" where
  "detect_cme_gap_improved df_1d last_price =
     (if df_1d = [] \<or> length df_1d < 5 then (NO_GAP, nan, [])
      else
        (let recent_gaps = List.map_filter (recent_gap_at df_1d last_price) [- 7, - 6, - 5, - 4, - 3, - 2, - 1]
         in if recent_gaps = [] then (NO_GAP, nan, [])
            else
              (let sorted_gaps =
                     (case last_price of
                        None \<Rightarrow> recent_gaps
                      | Some p \<Rightarrow> sort_key (\<lambda>x. \<bar>rg_level x - p\<bar>) recent_gaps);
                   closest_gap = hd sorted_gaps
               in case rg_direction closest_gap of
                    DOWN_TO_FILL \<Rightarrow> (SHORT_TO_FILL, Some (rg_level closest_gap), sorted_gaps)
                  | UP_TO_FILL \<Rightarrow> (LONG_TO_FILL, Some (rg_level closest_gap), sorted_gaps))))"

text \<open>Rows for examples: a row with the given open, high, low, close and volume.\<close>

definition mk_bar :: "real \<Rightarrow> real \<Rightarrow> real \<Rightarrow> real \<Rightarrow> real \<Rightarrow> bar" where
  "mk_bar o' h l c v = \<lparr>Open = Some o', High = Some h, Low = Some l, Close = Some c, Volume = Some v\<rparr>"

section \<open>Indicators\<close>

text \<open>
  Values computed inside pandas and numpy: a real number, NaN, or an infinity left by
  a division by zero.  The operations below follow IEEE arithmetic on these values,
  without rounding and without a sign on zero.
\<close>

datatype npfloat = NpNaN | NegInf | Fin real | PosInf

definition of_py :: "pyfloat \<Rightarrow> npfloat" where
  "of_py x = (case x of None \<Rightarrow> NpNaN | Some v \<Rightarrow> Fin v)"

fun np_neg :: "npfloat \<Rightarrow> npfloat" where
  "np_neg NpNaN = NpNaN"
| "np_neg NegInf = PosInf"
| "np_neg (Fin a) = Fin (- a)"
| "np_neg PosInf = NegInf"

fun np_add :: "npfloat \<Rightarrow> npfloat \<Rightarrow> npfloat" where
  "np_add (Fin a) (Fin b) = Fin (a + b)"
| "np_add NpNaN _ = NpNaN"
| "np_add _ NpNaN = NpNaN"
| "np_add PosInf NegInf = NpNaN"
| "np_add NegInf PosInf = NpNaN"
| "np_add PosInf _ = PosInf"
| "np_add _ PosInf = PosInf"
| "np_add NegInf _ = NegInf"
| "np_add _ NegInf = NegInf"

definition np_sub :: "npfloat \<Rightarrow> npfloat \<Rightarrow> npfloat" where
  "np_sub a b = np_add a (np_neg b)"

text \<open>The sign of a product or quotient with an infinity.\<close>

definition signed_inf :: "bool \<Rightarrow> npfloat" where
  "signed_inf positive = (if positive then PosInf else NegInf)"

fun np_mul :: "npfloat \<Rightarrow> npfloat \<Rightarrow> npfloat" where
  "np_mul (Fin a) (Fin b) = Fin (a * b)"
| "np_mul NpNaN _ = NpNaN"
| "np_mul _ NpNaN = NpNaN"
| "np_mul (Fin a) PosInf = (if a = 0 then NpNaN else signed_inf (a > 0))"
| "np_mul (Fin a) NegInf = (if a = 0 then NpNaN else signed_inf (a < 0))"
| "np_mul PosInf (Fin b) = (if b = 0 then NpNaN else signed_inf (b > 0))"
| "np_mul NegInf (Fin b) = (if b = 0 then NpNaN else signed_inf (b < 0))"
| "np_mul PosInf PosInf = PosInf"
| "np_mul NegInf NegInf = PosInf"
| "np_mul PosInf NegInf = NegInf"
| "np_mul NegInf PosInf = NegInf"

fun np_div :: "npfloat \<Rightarrow> npfloat \<Rightarrow> npfloat" where
  "np_div (Fin a) (Fin b) =
     (if b \<noteq> 0 then Fin (a / b) else if a = 0 then NpNaN else signed_inf (a > 0))"
| "np_div NpNaN _ = NpNaN"
| "np_div _ NpNaN = NpNaN"
| "np_div (Fin a) _ = Fin 0"
| "np_div PosInf (Fin b) = signed_inf (b \<ge> 0)"
| "np_div NegInf (Fin b) = signed_inf (b < 0)"
| "np_div _ _ = NpNaN"

fun np_abs :: "npfloat \<Rightarrow> npfloat" where
  "np_abs NpNaN = NpNaN"
| "np_abs (Fin a) = Fin \<bar>a\<bar>"
| "np_abs _ = PosInf"

fun np_lt :: "npfloat \<Rightarrow> npfloat \<Rightarrow> bool" where
  "np_lt (Fin a) (Fin b) = (a < b)"
| "np_lt NpNaN _ = False"
| "np_lt _ NpNaN = False"
| "np_lt NegInf NegInf = False"
| "np_lt NegInf _ = True"
| "np_lt (Fin a) PosInf = True"
| "np_lt _ _ = False"

definition np_gt :: "npfloat \<Rightarrow> npfloat \<Rightarrow> bool" where
  "np_gt a b = np_lt b a"

text \<open>\<open>Series.diff()\<close>: NaN first, then each value minus the one before it.\<close>

fun diff_from :: "pyfloat \<Rightarrow> pyfloat list \<Rightarrow> pyfloat list" where
  "diff_from prev [] = []"
| "diff_from prev (x # xs) = f_sub x prev # diff_from x xs"

fun diff :: "pyfloat list \<Rightarrow> pyfloat list" where
  "diff [] = []"
| "diff (x # xs) = nan # diff_from x xs"

text \<open>
  The last value of \<open>s.rolling(window).mean()\<close> for a series without NaN: the mean of
  its last \<open>window\<close> values, NaN when there are fewer values than that or the window is
  empty.
\<close>

definition rolling_mean_last :: "nat \<Rightarrow> real list \<Rightarrow> pyfloat" where
  "rolling_mean_last window s =
     (if window = 0 \<or> length s < window then nan
      else Some (sum_list (tail_rows window s) / real window))"

text \<open>\<open>delta.where(delta > 0, 0)\<close> and \<open>-delta.where(delta < 0, 0)\<close>; NaN fails both tests.\<close>

definition gain_of :: "pyfloat \<Rightarrow> real" where
  "gain_of d = (case d of Some v \<Rightarrow> if v > 0 then v else 0 | None \<Rightarrow> 0)"

definition loss_of :: "pyfloat \<Rightarrow> real" where
  "loss_of d = - (case d of Some v \<Rightarrow> if v < 0 then v else 0 | None \<Rightarrow> 0)"

text \<open>
  The last two lines of \<open>calculate_rsi\<close>, read as a function of the two rolling means:
  \<open>rs = gain / loss\<close> and \<open>rsi = 100 - 100 / (1 + rs)\<close>.
\<close>

definition rsi_value :: "pyfloat \<Rightarrow> pyfloat \<Rightarrow> npfloat" where
  "rsi_value gain loss =
     np_sub (Fin 100) (np_div (Fin 100) (np_add (Fin 1) (np_div (of_py gain) (of_py loss))))"

text \<open>
  \<open>calculate_rsi\<close>: NaN on fewer than \<open>period + 1\<close> rows, else the formula on the means
  of the last \<open>period\<close> gains and losses of the close.
\<close>

definition calculate_rsi :: "bar list \<Rightarrow> nat \<Rightarrow> npfloat" where
  "calculate_rsi df period =
     (if length df < period + 1 then NpNaN
      else
        (let delta = diff (map Close df);
             gain = rolling_mean_last period (map gain_of delta);
             loss = rolling_mean_last period (map loss_of delta);
             rs = np_div (of_py gain) (of_py loss);
             rsi = np_sub (Fin 100) (np_div (Fin 100) (np_add (Fin 1) rs))
         in safe_float rsi))"

text \<open>Every price of every row multiplied by \<open>c\<close>; NaN stays NaN.\<close>

definition scale_prices :: "real \<Rightarrow> bar list \<Rightarrow> bar list" where
  "scale_prices c df =
     map (\<lambda>b. b\<lparr>Open := f_mul (Some c) (Open b), High := f_mul (Some c) (High b),
                Low := f_mul (Some c) (Low b), Close := f_mul (Some c) (Close b)\<rparr>) df"

section \<open>Market structure\<close>

text \<open>
  Column reductions of pandas skip NaN: \<open>max\<close>, \<open>min\<close> and \<open>mean\<close> run over the numeric
  values and are NaN when there is none.
\<close>

definition numeric :: "pyfloat list \<Rightarrow> real list" where
  "numeric col = List.map_filter (\<lambda>x. x) col"

definition col_max :: "pyfloat list \<Rightarrow> pyfloat" where
  "col_max col = (let vs = numeric col in if vs = [] then nan else Some (Max (set vs)))"

definition col_min :: "pyfloat list \<Rightarrow> pyfloat" where
  "col_min col = (let vs = numeric col in if vs = [] then nan else Some (Min (set vs)))"

definition col_mean :: "pyfloat list \<Rightarrow> pyfloat" where
  "col_mean col =
     (let vs = numeric col in if vs = [] then nan else Some (sum_list vs / real (length vs)))"

datatype phase =
    NONE
  | STRONG_ACCUMULATION | POSSIBLE_ACCUMULATION
  | STRONG_DISTRIBUTION | POSSIBLE_DISTRIBUTION
  | ACCUMULATION_IN_RANGE | DISTRIBUTION_IN_RANGE | PURE_CONSOLIDATION
  | TRENDING

text \<open>The test \<open>'STRONG' in phase\<close> on the name of a phase.\<close>

fun has_STRONG :: "phase \<Rightarrow> bool" where
  "has_STRONG STRONG_ACCUMULATION = True"
| "has_STRONG STRONG_DISTRIBUTION = True"
| "has_STRONG _ = False"

text \<open>
  The three detectors are only ever called with their default look-back (20 rows for
  the consolidation, 60 for accumulation and distribution), which is fixed here.
  \<open>detect_consolidation\<close> returns \<open>(is_consolidating, range_pct, resistance, support)\<close>.
\<close>

definition detect_consolidation :: "bar list \<Rightarrow> bool \<times> npfloat \<times> pyfloat \<times> pyfloat" where
  "detect_consolidation df_1d =
     (if length df_1d < 20 then (False, Fin 0, nan, nan)
      else
        (let recent = tail_rows 20 df_1d;
             highest = col_max (map High recent);
             lowest = col_min (map Low recent);
             range_pct = np_mul (np_div (np_sub (of_py highest) (of_py lowest)) (of_py lowest)) (Fin 100);
             is_consolidating = np_lt range_pct (Fin 5);
             resistance_level = highest;
             support_level = lowest
         in (is_consolidating, range_pct, resistance_level, support_level)))"

text \<open>
  The loop \<open>for i in range(-10, 0, 2)\<close> of both detectors: the RSI of the rows before row
  \<open>i\<close> with the close of row \<open>i\<close>, kept when the RSI is not NaN.  The rows exist, since
  the frame has at least 60 of them.
\<close>

definition rsi_samples :: "bar list \<Rightarrow> (npfloat \<times> pyfloat) list" where
  "rsi_samples df_1d =
     List.map_filter
       (\<lambda>k. let rsi = calculate_rsi (take (length df_1d - k) df_1d) 14;
                 price = safe_float (Close (df_1d ! (length df_1d - k)))
             in if rsi \<noteq> NpNaN then Some (rsi, price) else None)
       [10, 8, 6, 4, 2]"

text \<open>\<open>detect_accumulation\<close> returns \<open>(detected, phase, score, signals, action)\<close>.\<close>

definition detect_accumulation ::
  "bar list \<Rightarrow> bool \<times> phase \<times> real \<times> string list \<times> string" where
  "detect_accumulation df_1d =
     (if length df_1d < 60 then (False, NONE, 0, [], [])
      else
        (let recent = tail_rows 60 df_1d;
             price_trend =
               np_div (np_sub (of_py (Close (last recent))) (of_py (Close (hd recent))))
                      (of_py (Close (hd recent)));
             volume_first_half = col_mean (map Volume (take 30 recent));
             volume_second_half = col_mean (map Volume (drop 30 recent));
             volume_decreasing = f_lt volume_second_half volume_first_half;
             last_20_days = tail_rows 20 recent;
             range_recent =
               np_mul (np_div (np_sub (of_py (col_max (map High last_20_days)))
                                      (of_py (col_min (map Low last_20_days))))
                              (of_py (col_min (map Low last_20_days)))) (Fin 100);
             forming_base = np_lt range_recent (Fin 8);
             rsi_values = map fst (rsi_samples df_1d);
             price_values = map snd (rsi_samples df_1d);
             bullish_divergence =
               (length rsi_values \<ge> 3 \<and> length price_values \<ge> 3 \<and>
                np_gt (last rsi_values) (hd rsi_values) \<and> f_lt (last price_values) (hd price_values));
             low_zone = (np_lt price_trend (Fin 0) \<or> np_lt (np_abs price_trend) (Fin (5 / 100)));
             accumulation_score =
               (if low_zone then 1 else 0) + (if volume_decreasing then 1 else 0) +
               (if forming_base then 3 / 2 else 0) + (if bullish_divergence then 3 / 2 else 0);
             signals =
               (if low_zone then [''Precio zona baja''] else []) @
               (if volume_decreasing then [''Volumen decreciente''] else []) @
               (if forming_base then [''Formando base''] else []) @
               (if bullish_divergence then [''Divergencia RSI alcista''] else []);
             (phase, action) =
               (if accumulation_score \<ge> 3 then (STRONG_ACCUMULATION, ''ACUMULACION FUERTE - Preparar LONG'')
                else if accumulation_score \<ge> 2 then (POSSIBLE_ACCUMULATION, ''Posible acumulacion - Monitorear'')
                else (NONE, []))
         in (accumulation_score \<ge> 2, phase, accumulation_score, signals, action)))"

definition detect_distribution ::
  "bar list \<Rightarrow> bool \<times> phase \<times> real \<times> string list \<times> string" where
  "detect_distribution df_1d =
     (if length df_1d < 60 then (False, NONE, 0, [], [])
      else
        (let recent = tail_rows 60 df_1d;
             price_trend =
               np_div (np_sub (of_py (Close (last recent))) (of_py (Close (hd recent))))
                      (of_py (Close (hd recent)));
             volume_first_half = col_mean (map Volume (take 30 recent));
             volume_second_half = col_mean (map Volume (drop 30 recent));
             volume_decreasing = f_lt volume_second_half volume_first_half;
             last_20_days = tail_rows 20 recent;
             range_recent =
               np_mul (np_div (np_sub (of_py (col_max (map High last_20_days)))
                                      (of_py (col_min (map Low last_20_days))))
                              (of_py (col_min (map Low last_20_days)))) (Fin 100);
             forming_top = np_lt range_recent (Fin 8);
             rsi_values = map fst (rsi_samples df_1d);
             price_values = map snd (rsi_samples df_1d);
             bearish_divergence =
               (length rsi_values \<ge> 3 \<and> length price_values \<ge> 3 \<and>
                np_lt (last rsi_values) (hd rsi_values) \<and> f_gt (last price_values) (hd price_values));
             high_zone = (np_gt price_trend (Fin 0) \<or> np_lt (np_abs price_trend) (Fin (5 / 100)));
             distribution_score =
               (if high_zone then 1 else 0) + (if volume_decreasing then 1 else 0) +
               (if forming_top then 3 / 2 else 0) + (if bearish_divergence then 3 / 2 else 0);
             signals =
               (if high_zone then [''Precio zona alta''] else []) @
               (if volume_decreasing then [''Volumen decreciente''] else []) @
               (if forming_top then [''Formando techo''] else []) @
               (if bearish_divergence then [''Divergencia RSI bajista''] else []);
             (phase, action) =
               (if distribution_score \<ge> 3 then (STRONG_DISTRIBUTION, ''DISTRIBUCION FUERTE - Preparar SHORT'')
                else if distribution_score \<ge> 2 then (POSSIBLE_DISTRIBUTION, ''Posible distribucion - Monitorear'')
                else (NONE, []))
         in (distribution_score \<ge> 2, phase, distribution_score, signals, action)))"

text \<open>
  The dictionary that \<open>analyze_market_structure\<close> returns, flattened.  The position is
  the text \<open>N/A\<close> outside a consolidation.
\<close>

record market_structure =
  primary_phase :: phase
  recommendation :: string
  confidence_adjustment :: real
  is_consolidating :: bool
  range_pct :: npfloat
  resistance :: pyfloat
  support :: pyfloat
  position :: string
  accumulation_detected :: bool
  accumulation_phase :: phase
  accumulation_score :: real
  accumulation_signals :: "string list"
  distribution_detected :: bool
  distribution_phase :: phase
  distribution_score :: real
  distribution_signals :: "string list"

definition analyze_market_structure :: "bar list \<Rightarrow> pyfloat \<Rightarrow> market_structure" where
  "analyze_market_structure df_1d last_price =
     (let (is_consolidating, range_pct, resistance, support) = detect_consolidation df_1d;
          (is_accum, accum_phase, accum_score, accum_signals, accum_action) = detect_accumulation df_1d;
          (is_distrib, distrib_phase, distrib_score, distrib_signals, distrib_action) =
             detect_distribution df_1d;
          current_price = last_price;
          (primary_phase, recommendation, confidence_adjustment, position,
           is_consolidating, range_pct, resistance, support) =
            (if is_consolidating then
               (let dist_to_resistance =
                      np_mul (np_div (np_sub (of_py resistance) (of_py current_price)) (of_py current_price)) (Fin 100);
                    dist_to_support =
                      np_mul (np_div (np_sub (of_py current_price) (of_py support)) (of_py current_price)) (Fin 100);
                    position =
                      (if np_lt dist_to_resistance (Fin 1) then ''NEAR_RESISTANCE''
                       else if np_lt dist_to_support (Fin 1) then ''NEAR_SUPPORT''
                       else ''MID_RANGE'')
                in if is_accum \<and> accum_score > distrib_score then
                     (ACCUMULATION_IN_RANGE, ''Consolidacion con acumulacion - ESPERAR breakout'', 8 / 10,
                      position, is_consolidating, range_pct, resistance, support)
                   else if is_distrib \<and> distrib_score > accum_score then
                     (DISTRIBUTION_IN_RANGE, ''Consolidacion con distribucion - ESPERAR breakdown'', 8 / 10,
                      position, is_consolidating, range_pct, resistance, support)
                   else
                     (PURE_CONSOLIDATION, ''CONSOLIDACION PURA - NO OPERAR'', 5 / 10,
                      position, is_consolidating, range_pct, resistance, support))
             else if is_accum \<and> \<not> is_distrib then
               (accum_phase, accum_action, if has_STRONG accum_phase then 12 / 10 else 11 / 10,
                ''ACCUMULATION_ZONE'', False, Fin 0, nan, nan)
             else if is_distrib \<and> \<not> is_accum then
               (distrib_phase, distrib_action, if has_STRONG distrib_phase then 12 / 10 else 11 / 10,
                ''DISTRIBUTION_ZONE'', False, Fin 0, nan, nan)
             else
               (TRENDING, ''Tendencia clara - Operar normal'', 1,
                ''TRENDING'', False, Fin 0, nan, nan))
      in \<lparr>primary_phase = primary_phase,
          recommendation = recommendation,
          confidence_adjustment = confidence_adjustment,
          is_consolidating = is_consolidating,
          range_pct = range_pct,
          resistance = resistance,
          support = support,
          position = (if is_consolidating then position else ''N/A''),
          accumulation_detected = is_accum,
          accumulation_phase = accum_phase,
          accumulation_score = accum_score,
          accumulation_signals = accum_signals,
          distribution_detected = is_distrib,
          distribution_phase = distrib_phase,
          distribution_score = distrib_score,
          distribution_signals = distrib_signals\<rparr>)"

text \<open>The score in the tuple that \<open>detect_accumulation\<close> and \<open>detect_distribution\<close> return.\<close>

definition score_of :: "bool \<times> phase \<times> real \<times> string list \<times> string \<Rightarrow> real" where
  "score_of r = fst (snd (snd r))"

text \<open>
  Daily series for examples: forty days near 110 (or near 90) and then twenty days
  between 100 and 101, and twenty such days alone.
\<close>

definition falling_then_flat :: "bar list" where
  "falling_then_flat =
     replicate 40 (mk_bar 110 111 110 110 10) @ replicate 20 (mk_bar 100 101 100 100 10)"

definition rising_then_flat :: "bar list" where
  "rising_then_flat =
     replicate 40 (mk_bar 90 91 90 90 10) @ replicate 20 (mk_bar 100 101 100 100 10)"

definition flat_month :: "bar list" where
  "flat_month = replicate 20 (mk_bar 100 101 100 100 10)"

section \<open>Comprehensive gap scan\<close>

datatype strength = STRONG | MEDIUM | WEAK

record gap_info =
  level :: real
  bottom :: real
  top :: real
  gtype :: gap_type
  age_days :: nat
  size_pct :: real
  strength :: strength

text \<open>
  The body of the loop \<open>for i in range(1, len(df_recent))\<close> of
  \<open>find_all_gaps_comprehensive\<close>, up to the two \<open>append\<close>s: the record built for the pair
  of rows \<open>i - 1\<close> and \<open>i\<close>, or \<open>None\<close> when the pass builds none (a NaN among the six
  values, no hole between the two rows, a later row that has filled it, or the
  \<open>ZeroDivisionError\<close> of the size on a zero bottom, which the \<open>try\<close> swallows).
\<close>

definition unfilled_gap_at :: "bar list \<Rightarrow> nat \<Rightarrow> gap_info option" where
  "unfilled_gap_at df_recent i =
     (let prev = df_recent ! (i - 1); cur = df_recent ! i in
      case (safe_float (Close prev), safe_float (High prev), safe_float (Low prev),
            safe_float (Open cur), safe_float (High cur), safe_float (Low cur)) of
        (Some prev_close, Some prev_high, Some prev_low,
         Some curr_open, Some curr_high, Some curr_low) \<Rightarrow>
          if curr_low > prev_high then
            (let gap_bottom = prev_high;
                 gap_top = curr_low;
                 gap_filled = any_row Low (\<lambda>check_low. check_low \<le> gap_bottom) (drop i df_recent)
             in if \<not> gap_filled then
                  (let gap_mid = (gap_bottom + gap_top) / 2 in
                   if gap_bottom = 0 then None
                   else
                     (let gap_size_pct = ((gap_top - gap_bottom) / gap_bottom) * 100 in
                      Some \<lparr>level = gap_mid, bottom = gap_bottom, top = gap_top, gtype = GAP_UP,
                            age_days = length df_recent - i, size_pct = gap_size_pct,
                            strength = (if gap_size_pct > 2 then STRONG
                                        else if gap_size_pct > 1 then MEDIUM else WEAK)\<rparr>))
                else None)
          else if curr_high < prev_low then
            (let gap_top = prev_low;
                 gap_bottom = curr_high;
                 gap_filled = any_row High (\<lambda>check_high. check_high \<ge> gap_top) (drop i df_recent)
             in if \<not> gap_filled then
                  (let gap_mid = (gap_bottom + gap_top) / 2 in
                   if gap_bottom = 0 then None
                   else
                     (let gap_size_pct = ((gap_top - gap_bottom) / gap_bottom) * 100 in
                      Some \<lparr>level = gap_mid, bottom = gap_bottom, top = gap_top, gtype = GAP_DOWN,
                            age_days = length df_recent - i, size_pct = gap_size_pct,
                            strength = (if gap_size_pct > 2 then STRONG
                                        else if gap_size_pct > 1 then MEDIUM else WEAK)\<rparr>))
                else None)
          else None
      | _ \<Rightarrow> None)"

text \<open>
  \<open>find_all_gaps_comprehensive\<close>.  Each record goes to \<open>gaps_above\<close> when its level is
  above the price, else to \<open>gaps_below\<close> when it is below, else nowhere; the two lists
  are the records of the loop filtered by these tests, in the order of the loop.
  \<open>sorted\<close> is stable, also with \<open>reverse=True\<close>.
\<close>

definition find_all_gaps_comprehensive ::
  "bar list \<Rightarrow> pyfloat \<Rightarrow> nat \<Rightarrow> gap_info list \<times> gap_info list" where
  "find_all_gaps_comprehensive df_1d current_price lookback_days =
     (if df_1d = [] \<or> length df_1d < 3 then ([], [])
      else
        (let df_recent = (if length df_1d \<ge> lookback_days then tail_rows lookback_days df_1d else df_1d);
             found = List.map_filter (unfilled_gap_at df_recent) [1..<length df_recent];
             gaps_above = filter (\<lambda>g. f_gt (Some (level g)) current_price) found;
             gaps_below = filter (\<lambda>g. \<not> f_gt (Some (level g)) current_price \<and>
                                        f_lt (Some (level g)) current_price) found
         in (sort_key level gaps_above, rev (sort_key level (rev gaps_below)))))"

text \<open>
  A daily series for examples: four rows, each wholly above the one before, so that
  it has the holes \<open>[100, 102]\<close>, \<open>[104, 106]\<close> and \<open>[108, 110]\<close>, none of them filled; and
  the record that the scan builds for such a hole.
\<close>

definition stairs :: "bar list" where
  "stairs = [mk_bar 99 100 98 99 1, mk_bar 103 104 102 103 1,
             mk_bar 107 108 106 107 1, mk_bar 111 112 110 111 1]"

definition stairs_gap :: "real \<Rightarrow> real \<Rightarrow> nat \<Rightarrow> gap_info" where
  "stairs_gap lo hi age =
     \<lparr>level = (lo + hi) / 2, bottom = lo, top = hi, gtype = GAP_UP, age_days = age,
      size_pct = ((hi - lo) / lo) * 100, strength = MEDIUM\<rparr>"

section \<open>Helpers of the analysis\<close>

text \<open>
  The last value of \<open>s.rolling(window).mean()\<close> for a series that may hold NaN: NaN as
  soon as the window holds one.
\<close>

definition rolling_mean_last_py :: "nat \<Rightarrow> pyfloat list \<Rightarrow> pyfloat" where
  "rolling_mean_last_py window s =
     (if window = 0 \<or> length s < window then nan
      else if list_ex isnan (tail_rows window s) then nan
      else Some (sum_list (numeric (tail_rows window s)) / real window))"

text \<open>
  The true range of a row given the close before it (NaN for the first row): the
  greatest of the three distances that are numeric.
\<close>

definition true_range :: "pyfloat \<Rightarrow> bar \<Rightarrow> pyfloat" where
  "true_range prev_close r =
     col_max [f_sub (High r) (Low r),
              map_option abs (f_sub (High r) prev_close),
              map_option abs (f_sub (Low r) prev_close)]"

fun true_ranges_from :: "pyfloat \<Rightarrow> bar list \<Rightarrow> pyfloat list" where
  "true_ranges_from prev_close [] = []"
| "true_ranges_from prev_close (r # rs) = true_range prev_close r # true_ranges_from (Close r) rs"

definition safe_atr :: "bar list \<Rightarrow> nat \<Rightarrow> pyfloat" where
  "safe_atr df period =
     (if length df < period + 1 then nan
      else safe_float (rolling_mean_last_py period (true_ranges_from nan df)))"

text \<open>\<open>check_high_volume\<close> with \<open>df['Volume'].iloc[-period:-1]\<close> as the rows before the last.\<close>

definition check_high_volume :: "bar list \<Rightarrow> nat \<Rightarrow> real \<Rightarrow> bool" where
  "check_high_volume df period multiplier =
     (if length df < period then False
      else
        (let last_volume = safe_float (Volume (last df));
             avg_volume = col_mean (map Volume (butlast (tail_rows period df)))
         in f_gt last_volume (f_mul (safe_float avg_volume) (Some multiplier))))"

text \<open>
  \<open>find_historical_level\<close>: over the rows \<open>df_1d.iloc[-lookback_days:-2]\<close>, the least high
  above the price, or the greatest low below it.
\<close>

definition find_historical_level :: "bar list \<Rightarrow> pyfloat \<Rightarrow> bool \<Rightarrow> nat \<Rightarrow> pyfloat" where
  "find_historical_level df_1d last_price is_resistance lookback_days =
     (if df_1d = [] \<or> length df_1d < 3 then nan
      else
        (let df_history = butlast (butlast (tail_rows lookback_days df_1d)) in
         if df_history = [] then nan
         else if is_resistance then
           (let relevant_highs = filter (\<lambda>h. f_gt (Some h) last_price) (numeric (map High df_history))
            in if relevant_highs \<noteq> [] then safe_float (Some (Min (set relevant_highs))) else nan)
         else
           (let relevant_lows = filter (\<lambda>l. f_lt (Some l) last_price) (numeric (map Low df_history))
            in if relevant_lows \<noteq> [] then safe_float (Some (Max (set relevant_lows))) else nan)))"

text \<open>\<open>data_5m.dropna(subset=required_cols)\<close>: the rows without NaN.\<close>

definition dropna :: "frame \<Rightarrow> frame" where
  "dropna df =
     df\<lparr>rows := filter (\<lambda>r. \<not> isnan (Open r) \<and> \<not> isnan (High r) \<and> \<not> isnan (Low r) \<and>
                             \<not> isnan (Close r) \<and> \<not> isnan (Volume r)) (rows df)\<rparr>"

section \<open>Decisions and levels\<close>

text \<open>
  The decision labels of the v3 script and, last, the three that only the first script
  has.  \<open>decision_text\<close> is the string of the source, in ASCII; the two low-confidence
  labels carry the confidence that the source formats into the text, and the text
  here leaves those digits out.
\<close>

datatype decision =
    NO_OPERAR_Sin_Senal_Clara
  | SHORT_FUERTE | SHORT_MODERADO | SHORT_PENDIENTE | NO_OPERAR_Gap_SHORT real
  | LONG_FUERTE | LONG_MODERADO | LONG_PENDIENTE | NO_OPERAR_Gap_LONG real
  | SHORT_GAP_HISTORICO | LONG_GAP_HISTORICO
  | SHORT_RESISTENCIA | LONG_SOPORTE
  | NO_OPERAR_Consolidacion | SHORT_RESISTENCIA_Sin_Gap | LONG_SOPORTE_Sin_Gap

fun decision_text :: "decision \<Rightarrow> string" where
  "decision_text NO_OPERAR_Sin_Senal_Clara = ''NO_OPERAR (Sin Senal Clara)''"
| "decision_text SHORT_FUERTE = ''SHORT_FUERTE (Activacion Inmediata)''"
| "decision_text SHORT_MODERADO = ''SHORT_MODERADO (Activacion Inmediata)''"
| "decision_text SHORT_PENDIENTE = ''SHORT_PENDIENTE (Esperar Retroceso a PP)''"
| "decision_text (NO_OPERAR_Gap_SHORT c) = ''NO_OPERAR (Gap SHORT detectado pero confianza baja: /6.0)''"
| "decision_text LONG_FUERTE = ''LONG_FUERTE (Activacion Inmediata)''"
| "decision_text LONG_MODERADO = ''LONG_MODERADO (Activacion Inmediata)''"
| "decision_text LONG_PENDIENTE = ''LONG_PENDIENTE (Esperar Retroceso a PP)''"
| "decision_text (NO_OPERAR_Gap_LONG c) = ''NO_OPERAR (Gap LONG detectado pero confianza baja: /6.0)''"
| "decision_text SHORT_GAP_HISTORICO = ''SHORT_GAP_HISTORICO (Resistencia)''"
| "decision_text LONG_GAP_HISTORICO = ''LONG_GAP_HISTORICO (Soporte)''"
| "decision_text SHORT_RESISTENCIA = ''SHORT_RESISTENCIA (Nivel Historico)''"
| "decision_text LONG_SOPORTE = ''LONG_SOPORTE (Nivel Historico)''"
| "decision_text NO_OPERAR_Consolidacion = ''NO_OPERAR (Consolidacion)''"
| "decision_text SHORT_RESISTENCIA_Sin_Gap = ''SHORT_RESISTENCIA (Sin Gap - Nivel Historico)''"
| "decision_text LONG_SOPORTE_Sin_Gap = ''LONG_SOPORTE (Sin Gap - Nivel Historico)''"

text \<open>Python's \<open>word in text\<close> on strings.\<close>

fun py_in :: "string \<Rightarrow> string \<Rightarrow> bool" where
  "py_in word [] = (word = [])"
| "py_in word (c # cs) = (take (length word) (c # cs) = word \<or> py_in word cs)"

text \<open>
  \<open>validate_levels\<close>, the same in every strategy script.  It returns
  \<open>(entry_p, sl_p, tp1_p, tp2_p)\<close>; its \<open>last_price\<close> argument is not read.
\<close>

definition validate_levels ::
  "decision \<Rightarrow> pyfloat \<Rightarrow> pyfloat \<Rightarrow> pyfloat \<Rightarrow> pyfloat \<Rightarrow> pyfloat \<Rightarrow> pyfloat
     \<Rightarrow> pyfloat \<times> pyfloat \<times> pyfloat \<times> pyfloat" where
  "validate_levels decision entry_p sl_p tp1_p tp2_p atr last_price =
     (if isnan entry_p \<or> isnan atr then (entry_p, sl_p, tp1_p, tp2_p)
      else if py_in ''SHORT'' (decision_text decision) then
        (let sl_p = (if \<not> isnan sl_p \<and> f_le sl_p entry_p
                     then f_add entry_p (f_mul atr (Some (3 / 2))) else sl_p);
             tp1_p = (if \<not> isnan tp1_p \<and> f_ge tp1_p entry_p
                      then f_sub entry_p (f_mul atr (Some 1)) else tp1_p);
             tp2_p = (if \<not> isnan tp2_p then
                        (let tp2_p = (if f_ge tp2_p entry_p
                                      then f_sub entry_p (f_mul atr (Some 2)) else tp2_p)
                         in if \<not> isnan tp1_p \<and> f_ge tp2_p tp1_p
                            then f_sub tp1_p (f_mul atr (Some 1)) else tp2_p)
                      else tp2_p)
         in (entry_p, sl_p, tp1_p, tp2_p))
      else if py_in ''LONG'' (decision_text decision) then
        (let sl_p = (if \<not> isnan sl_p \<and> f_ge sl_p entry_p
                     then f_sub entry_p (f_mul atr (Some (3 / 2))) else sl_p);
             tp1_p = (if \<not> isnan tp1_p \<and> f_le tp1_p entry_p
                      then f_add entry_p (f_mul atr (Some 1)) else tp1_p);
             tp2_p = (if \<not> isnan tp2_p then
                        (let tp2_p = (if f_le tp2_p entry_p
                                      then f_add entry_p (f_mul atr (Some 2)) else tp2_p)
                         in if \<not> isnan tp1_p \<and> f_le tp2_p tp1_p
                            then f_add tp1_p (f_mul atr (Some 1)) else tp2_p)
                      else tp2_p)
         in (entry_p, sl_p, tp1_p, tp2_p))
      else (entry_p, sl_p, tp1_p, tp2_p))"

section \<open>The analysis of one instrument (v3)\<close>

text \<open>
  The signals that \<open>analyze_technical_indicators\<close> hands over.  That function downloads
  its own data; its result is an argument of the analysis here.
\<close>

datatype rsi_signal = RSI_NEUTRAL | OVERSOLD | OVERBOUGHT | BULLISH_ZONE | BEARISH_ZONE

datatype macd_signal = BULLISH_CROSS | BEARISH_CROSS | BULLISH | BEARISH | MACD_NEUTRAL

datatype ema_signal = EMA_NEUTRAL | ABOVE_STRONG | ABOVE | BELOW_STRONG | BELOW

record indicators =
  rsi_signal :: rsi_signal
  macd_signal :: macd_signal
  ema_signal :: ema_signal

text \<open>
  The local variables that the branches of the decision logic assign, with their
  values before the branches.
\<close>

record plan =
  decision :: decision
  confidence :: real
  indicator_score :: real
  entry_p :: pyfloat
  sl_p :: pyfloat
  tp1_p :: pyfloat
  tp2_p :: pyfloat
  tp3_p :: pyfloat

definition initial_plan :: plan where
  "initial_plan =
     \<lparr>decision = NO_OPERAR_Sin_Senal_Clara, confidence = 0, indicator_score = 0,
      entry_p = nan, sl_p = nan, tp1_p = nan, tp2_p = nan, tp3_p = nan\<rparr>"

definition ATR_TOLERANCE :: "pyfloat \<Rightarrow> real \<Rightarrow> real" where
  "ATR_TOLERANCE atr last_price =
     (case atr of Some a \<Rightarrow> if a > 0 then a * (1 / 2) else last_price * (1 / 1000)
                | None \<Rightarrow> last_price * (1 / 1000))"

text \<open>The branch \<open>gap_signal == "SHORT_TO_FILL"\<close>.\<close>

definition short_to_fill ::
  "real \<Rightarrow> pyfloat \<Rightarrow> pyfloat \<Rightarrow> real \<Rightarrow> pyfloat \<Rightarrow> bool \<Rightarrow> pyfloat \<Rightarrow> indicators
     \<Rightarrow> gap_info list \<Rightarrow> pyfloat \<Rightarrow> pyfloat \<Rightarrow> plan" where
  "short_to_fill PP R1 S1 last_price atr high_volume gap_level indicators gaps_below R2_hist S2_hist =
     (let confidence = 0 + 2;
          sl_p = (if f_gt R1 (Some last_price) then R1
                  else if \<not> isnan R2_hist \<and> f_gt R2_hist (Some last_price) then R2_hist
                  else f_add (Some last_price) (f_mul atr (Some (3 / 2))));
          tp1_p = gap_level;
          tp2_p = S1;
          tp3_p =
            (if gaps_below \<noteq> [] \<and> length gaps_below > 0 then
               (let strong_gaps = filter (\<lambda>g. strength g \<in> {STRONG, MEDIUM} \<and> f_lt (Some (level g)) tp2_p) gaps_below
                in if strong_gaps \<noteq> [] then Some (level (hd strong_gaps))
                   else if \<not> isnan S2_hist \<and> f_lt S2_hist tp2_p then S2_hist
                   else f_sub tp2_p (f_mul atr (Some 2)))
             else if \<not> isnan S2_hist \<and> f_lt S2_hist tp2_p then S2_hist
             else f_sub tp2_p (f_mul atr (Some 2)));
          price_above_pp = (last_price > PP);
          confidence = (if price_above_pp then confidence + 1 else confidence - 1 / 2);
          indicator_score = 0;
          indicator_score =
            (if rsi_signal indicators \<in> {OVERBOUGHT, BEARISH_ZONE}
             then indicator_score + (if rsi_signal indicators = OVERBOUGHT then 1 else 1 / 2)
             else indicator_score - 1 / 2);
          indicator_score =
            (if macd_signal indicators \<in> {BEARISH_CROSS, BEARISH}
             then indicator_score + (if macd_signal indicators = BEARISH_CROSS then 1 else 1 / 2)
             else if macd_signal indicators \<in> {BULLISH_CROSS, BULLISH}
             then indicator_score - 1 / 2
             else indicator_score);
          indicator_score =
            (if ema_signal indicators \<in> {BELOW_STRONG, BELOW}
             then indicator_score + 1 / 2 else indicator_score);
          confidence = confidence + indicator_score;
          confidence = confidence + (if high_volume then 1 else 0);
          min_confidence = 3;
          (entry_p, decision) =
            (if confidence \<ge> min_confidence \<and> indicator_score \<ge> 0 then
               (if last_price \<ge> PP \<or> \<bar>last_price - PP\<bar> < ATR_TOLERANCE atr last_price
                then (Some last_price, if confidence \<ge> 9 / 2 then SHORT_FUERTE else SHORT_MODERADO)
                else (Some PP, SHORT_PENDIENTE))
             else (nan, NO_OPERAR_Gap_SHORT confidence))
      in \<lparr>decision = decision, confidence = confidence, indicator_score = indicator_score,
          entry_p = entry_p, sl_p = sl_p, tp1_p = tp1_p, tp2_p = tp2_p, tp3_p = tp3_p\<rparr>)"

text \<open>The branch \<open>gap_signal == "LONG_TO_FILL"\<close>.\<close>

definition long_to_fill ::
  "real \<Rightarrow> pyfloat \<Rightarrow> pyfloat \<Rightarrow> real \<Rightarrow> pyfloat \<Rightarrow> bool \<Rightarrow> pyfloat \<Rightarrow> indicators
     \<Rightarrow> gap_info list \<Rightarrow> pyfloat \<Rightarrow> pyfloat \<Rightarrow> plan" where
  "long_to_fill PP R1 S1 last_price atr high_volume gap_level indicators gaps_above R2_hist S2_hist =
     (let confidence = 0 + 2;
          sl_p = (if f_lt S1 (Some last_price) then S1
                  else if \<not> isnan S2_hist \<and> f_lt S2_hist (Some last_price) then S2_hist
                  else f_sub (Some last_price) (f_mul atr (Some (3 / 2))));
          tp1_p = gap_level;
          tp2_p = R1;
          tp3_p =
            (if gaps_above \<noteq> [] \<and> length gaps_above > 0 then
               (let strong_gaps = filter (\<lambda>g. strength g \<in> {STRONG, MEDIUM} \<and> f_gt (Some (level g)) tp2_p) gaps_above
                in if strong_gaps \<noteq> [] then Some (level (hd strong_gaps))
                   else if \<not> isnan R2_hist \<and> f_gt R2_hist tp2_p then R2_hist
                   else f_add tp2_p (f_mul atr (Some 2)))
             else if \<not> isnan R2_hist \<and> f_gt R2_hist tp2_p then R2_hist
             else f_add tp2_p (f_mul atr (Some 2)));
          price_below_pp = (last_price < PP);
          confidence = (if price_below_pp then confidence + 1 else confidence - 1 / 2);
          indicator_score = 0;
          indicator_score =
            (if rsi_signal indicators \<in> {OVERSOLD, BULLISH_ZONE}
             then indicator_score + (if rsi_signal indicators = OVERSOLD then 1 else 1 / 2)
             else indicator_score - 1 / 2);
          indicator_score =
            (if macd_signal indicators \<in> {BULLISH_CROSS, BULLISH}
             then indicator_score + (if macd_signal indicators = BULLISH_CROSS then 1 else 1 / 2)
             else if macd_signal indicators \<in> {BEARISH_CROSS, BEARISH}
             then indicator_score - 1 / 2
             else indicator_score);
          indicator_score =
            (if ema_signal indicators \<in> {ABOVE_STRONG, ABOVE}
             then indicator_score + 1 / 2 else indicator_score);
          confidence = confidence + indicator_score;
          confidence = confidence + (if high_volume then 1 else 0);
          min_confidence = 3;
          (entry_p, decision) =
            (if confidence \<ge> min_confidence \<and> indicator_score \<ge> 0 then
               (if last_price \<le> PP \<or> \<bar>last_price - PP\<bar> < ATR_TOLERANCE atr last_price
                then (Some last_price, if confidence \<ge> 9 / 2 then LONG_FUERTE else LONG_MODERADO)
                else (Some PP, LONG_PENDIENTE))
             else (nan, NO_OPERAR_Gap_LONG confidence))
      in \<lparr>decision = decision, confidence = confidence, indicator_score = indicator_score,
          entry_p = entry_p, sl_p = sl_p, tp1_p = tp1_p, tp2_p = tp2_p, tp3_p = tp3_p\<rparr>)"

text \<open>
  The four alternatives of the branch \<open>gap_signal == "NO_GAP"\<close>.  Each assigns the
  levels and the scores, and the entry and the decision only when the confidence
  reaches its bar.
\<close>

definition short_gap_historico ::
  "real \<Rightarrow> pyfloat \<Rightarrow> real \<Rightarrow> pyfloat \<Rightarrow> indicators \<Rightarrow> gap_info list \<Rightarrow> gap_info list \<Rightarrow> pyfloat \<Rightarrow> plan" where
  "short_gap_historico PP S1 last_price atr indicators gaps_above gaps_below S2_hist =
     (let confidence = 0 + 3 / 2;
          sl_p = f_add (Some (top (hd gaps_above))) (f_mul atr (Some (1 / 2)));
          tp1_p = (if PP < last_price then Some PP else f_sub (Some last_price) (f_mul atr (Some 2)));
          tp2_p = S1;
          tp3_p = (if gaps_below \<noteq> [] then Some (level (hd gaps_below)) else S2_hist);
          indicator_score = 0;
          indicator_score = (if rsi_signal indicators \<in> {OVERBOUGHT, BEARISH_ZONE}
                             then indicator_score + 1 else indicator_score);
          indicator_score = (if macd_signal indicators \<in> {BEARISH_CROSS, BEARISH}
                             then indicator_score + 1 else indicator_score);
          confidence = confidence + indicator_score;
          (entry_p, decision) =
            (if confidence \<ge> 3 then (Some last_price, SHORT_GAP_HISTORICO)
             else (nan, NO_OPERAR_Sin_Senal_Clara))
      in \<lparr>decision = decision, confidence = confidence, indicator_score = indicator_score,
          entry_p = entry_p, sl_p = sl_p, tp1_p = tp1_p, tp2_p = tp2_p, tp3_p = tp3_p\<rparr>)"

definition long_gap_historico ::
  "real \<Rightarrow> pyfloat \<Rightarrow> real \<Rightarrow> pyfloat \<Rightarrow> indicators \<Rightarrow> gap_info list \<Rightarrow> gap_info list \<Rightarrow> pyfloat \<Rightarrow> plan" where
  "long_gap_historico PP R1 last_price atr indicators gaps_above gaps_below R2_hist =
     (let confidence = 0 + 3 / 2;
          sl_p = f_sub (Some (bottom (hd gaps_below))) (f_mul atr (Some (1 / 2)));
          tp1_p = (if PP > last_price then Some PP else f_add (Some last_price) (f_mul atr (Some 2)));
          tp2_p = R1;
          tp3_p = (if gaps_above \<noteq> [] then Some (level (hd gaps_above)) else R2_hist);
          indicator_score = 0;
          indicator_score = (if rsi_signal indicators \<in> {OVERSOLD, BULLISH_ZONE}
                             then indicator_score + 1 else indicator_score);
          indicator_score = (if macd_signal indicators \<in> {BULLISH_CROSS, BULLISH}
                             then indicator_score + 1 else indicator_score);
          confidence = confidence + indicator_score;
          (entry_p, decision) =
            (if confidence \<ge> 3 then (Some last_price, LONG_GAP_HISTORICO)
             else (nan, NO_OPERAR_Sin_Senal_Clara))
      in \<lparr>decision = decision, confidence = confidence, indicator_score = indicator_score,
          entry_p = entry_p, sl_p = sl_p, tp1_p = tp1_p, tp2_p = tp2_p, tp3_p = tp3_p\<rparr>)"

definition short_resistencia ::
  "real \<Rightarrow> pyfloat \<Rightarrow> real \<Rightarrow> pyfloat \<Rightarrow> bool \<Rightarrow> indicators \<Rightarrow> pyfloat \<Rightarrow> pyfloat \<Rightarrow> plan" where
  "short_resistencia PP S1 last_price atr high_volume indicators R2_hist S2_hist =
     (let confidence = 0 + 3 / 2;
          sl_p = f_add R2_hist (f_mul atr (Some 1));
          tp1_p = Some PP;
          tp2_p = S1;
          tp3_p = (if \<not> isnan S2_hist then S2_hist else f_sub S1 (f_mul atr (Some 2)));
          indicator_score = 0;
          indicator_score = (if rsi_signal indicators \<in> {OVERBOUGHT, BEARISH_ZONE}
                             then indicator_score + 1 else indicator_score);
          indicator_score = (if macd_signal indicators \<in> {BEARISH_CROSS, BEARISH}
                             then indicator_score + 1 else indicator_score);
          confidence = confidence + (indicator_score + (if high_volume then 1 else 0));
          (entry_p, decision) =
            (if confidence \<ge> 7 / 2 then (Some last_price, SHORT_RESISTENCIA)
             else (nan, NO_OPERAR_Sin_Senal_Clara))
      in \<lparr>decision = decision, confidence = confidence, indicator_score = indicator_score,
          entry_p = entry_p, sl_p = sl_p, tp1_p = tp1_p, tp2_p = tp2_p, tp3_p = tp3_p\<rparr>)"

definition long_soporte ::
  "real \<Rightarrow> pyfloat \<Rightarrow> real \<Rightarrow> pyfloat \<Rightarrow> bool \<Rightarrow> indicators \<Rightarrow> pyfloat \<Rightarrow> pyfloat \<Rightarrow> plan" where
  "long_soporte PP R1 last_price atr high_volume indicators R2_hist S2_hist =
     (let confidence = 0 + 3 / 2;
          sl_p = f_sub S2_hist (f_mul atr (Some 1));
          tp1_p = Some PP;
          tp2_p = R1;
          tp3_p = (if \<not> isnan R2_hist then R2_hist else f_add R1 (f_mul atr (Some 2)));
          indicator_score = 0;
          indicator_score = (if rsi_signal indicators \<in> {OVERSOLD, BULLISH_ZONE}
                             then indicator_score + 1 else indicator_score);
          indicator_score = (if macd_signal indicators \<in> {BULLISH_CROSS, BULLISH}
                             then indicator_score + 1 else indicator_score);
          confidence = confidence + (indicator_score + (if high_volume then 1 else 0));
          (entry_p, decision) =
            (if confidence \<ge> 7 / 2 then (Some last_price, LONG_SOPORTE)
             else (nan, NO_OPERAR_Sin_Senal_Clara))
      in \<lparr>decision = decision, confidence = confidence, indicator_score = indicator_score,
          entry_p = entry_p, sl_p = sl_p, tp1_p = tp1_p, tp2_p = tp2_p, tp3_p = tp3_p\<rparr>)"

datatype analysis_error = Message string | ZeroDivisionError

text \<open>
  The decision logic of \<open>analyze_pre_ny\<close>, from the two flags \<open>strong_resistance\<close> and
  \<open>strong_support\<close> down to the end of the branches.  The price is a Python float, not
  NaN at this point, and the divisions by it raise when it is zero: the two flags
  divide when their level is not NaN, and the two historic-gap tests divide when their
  list is not empty.
\<close>

definition decide ::
  "real \<Rightarrow> pyfloat \<Rightarrow> pyfloat \<Rightarrow> real \<Rightarrow> pyfloat \<Rightarrow> bool \<Rightarrow> gap_signal \<Rightarrow> pyfloat \<Rightarrow> indicators
     \<Rightarrow> gap_info list \<Rightarrow> gap_info list \<Rightarrow> pyfloat \<Rightarrow> pyfloat \<Rightarrow> analysis_error + plan" where
  "decide PP R1 S1 last_price atr high_volume gap_signal gap_level indicators
          gaps_above gaps_below R2_hist S2_hist =
     (if (\<not> isnan R2_hist \<or> \<not> isnan S2_hist) \<and> last_price = 0 then Inl ZeroDivisionError
      else
        (let strong_resistance =
               (case R2_hist of None \<Rightarrow> False
                              | Some r \<Rightarrow> \<bar>last_price - r\<bar> / last_price < 1 / 100);
             strong_support =
               (case S2_hist of None \<Rightarrow> False
                              | Some s \<Rightarrow> \<bar>last_price - s\<bar> / last_price < 1 / 100)
         in case gap_signal of
              SHORT_TO_FILL \<Rightarrow>
                Inr (short_to_fill PP R1 S1 last_price atr high_volume gap_level indicators
                       gaps_below R2_hist S2_hist)
            | LONG_TO_FILL \<Rightarrow>
                Inr (long_to_fill PP R1 S1 last_price atr high_volume gap_level indicators
                       gaps_above R2_hist S2_hist)
            | NO_GAP \<Rightarrow>
                if gaps_above \<noteq> [] \<and> last_price = 0 then Inl ZeroDivisionError
                else if gaps_above \<noteq> [] \<and>
                        \<bar>level (hd gaps_above) - last_price\<bar> / last_price < 2 / 100 then
                  Inr (short_gap_historico PP S1 last_price atr indicators gaps_above gaps_below S2_hist)
                else if gaps_below \<noteq> [] \<and> last_price = 0 then Inl ZeroDivisionError
                else if gaps_below \<noteq> [] \<and>
                        \<bar>level (hd gaps_below) - last_price\<bar> / last_price < 2 / 100 then
                  Inr (long_gap_historico PP R1 last_price atr indicators gaps_above gaps_below R2_hist)
                else if strong_resistance \<and> f_ge (Some last_price) R2_hist then
                  Inr (short_resistencia PP S1 last_price atr high_volume indicators R2_hist S2_hist)
                else if strong_support \<and> f_le (Some last_price) S2_hist then
                  Inr (long_soporte PP R1 last_price atr high_volume indicators R2_hist S2_hist)
                else Inr initial_plan))"

text \<open>
  What follows the branches: \<open>validate_levels\<close>, the repair of the third target, the
  multiplier of the market structure and the percentage.  The trade signal is the
  data of the report; the text of the report is not modelled.
\<close>

definition max_score :: real where
  "max_score = 6"

record trade_signal = plan +
  confidence_before_structure :: real
  confidence_pct :: real
  market_phase :: market_structure

definition finish :: "plan \<Rightarrow> pyfloat \<Rightarrow> real \<Rightarrow> market_structure \<Rightarrow> trade_signal" where
  "finish p atr last_price market_structure =
     (let (entry_p, sl_p, tp1_p, tp2_p) =
            validate_levels (decision p) (entry_p p) (sl_p p) (tp1_p p) (tp2_p p) atr (Some last_price);
          tp3_p =
            (if py_in ''SHORT'' (decision_text (decision p)) \<and> \<not> isnan (tp3_p p) then
               (if \<not> isnan tp2_p \<and> f_ge (tp3_p p) tp2_p
                then f_sub tp2_p (f_mul atr (Some 1)) else tp3_p p)
             else if py_in ''LONG'' (decision_text (decision p)) \<and> \<not> isnan (tp3_p p) then
               (if \<not> isnan tp2_p \<and> f_le (tp3_p p) tp2_p
                then f_add tp2_p (f_mul atr (Some 1)) else tp3_p p)
             else tp3_p p);
          confidence_before_structure = confidence p;
          confidence = confidence p * confidence_adjustment market_structure;
          confidence_pct = min 100 ((confidence / max_score) * 100)
      in \<lparr>decision = decision p, confidence = confidence, indicator_score = indicator_score p,
          entry_p = entry_p, sl_p = sl_p, tp1_p = tp1_p, tp2_p = tp2_p, tp3_p = tp3_p,
          confidence_before_structure = confidence_before_structure,
          confidence_pct = confidence_pct, market_phase = market_structure\<rparr>)"

text \<open>
  \<open>analyze_pre_ny\<close> of the v3 script up to the percentage.  Its arguments are the symbol,
  the three downloads (5-minute, hourly and daily rows) and the indicator signals; the
  result is the error text that the function returns, the exception that it raises,
  or the trade signal.  The clock arithmetic on the time stamps is left out.
\<close>

definition analyze_pre_ny ::
  "string \<Rightarrow> download \<Rightarrow> download \<Rightarrow> download \<Rightarrow> indicators \<Rightarrow> analysis_error + trade_signal" where
  "analyze_pre_ny symbol download_5m download_4h download_1d indicators =
     (case download_5m of
        Download_Failed e \<Rightarrow> Inl (Message (''Error de Conexion/API (5m) para '' @ symbol @ '': '' @ e))
      | Downloaded data_5m \<Rightarrow>
     (case download_4h of
        Download_Failed e \<Rightarrow> Inl (Message (''Error de Conexion/API (5m) para '' @ symbol @ '': '' @ e))
      | Downloaded data_4h \<Rightarrow>
        if rows data_5m = [] \<or> \<not> has_required_cols data_5m then
          Inl (Message (''Error de Datos 5m para '' @ symbol @ '': DataFrame vacio o incompleto.''))
        else
          (let data_5m = dropna data_5m;
               (PP, R1, S1, data_1d, error_1d) = calculate_pivot_points download_1d
           in case error_1d of
                Some e \<Rightarrow> Inl (Message (''Error de Pivotes (1D) para '' @ symbol @ '': '' @ e))
              | None \<Rightarrow>
             (case PP of
                None \<Rightarrow> Inl (Message (''Datos insuficientes para '' @ symbol @ ''.''))
              | Some PP \<Rightarrow>
                if rows data_5m = [] \<or> length (rows data_5m) < 3 then
                  Inl (Message (''Datos insuficientes para '' @ symbol @ ''.''))
                else
                  (case safe_float (Close (last (rows data_5m))) of
                     None \<Rightarrow> Inl (Message (''Error al extraer precio/tiempo para '' @ symbol @
                                             '': Precio final invalido.''))
                   | Some last_price \<Rightarrow>
                       (let atr = safe_atr (rows data_5m) 14;
                            high_volume = check_high_volume (rows data_5m) 20 (3 / 2);
                            (gap_signal, gap_level, all_recent_gaps) =
                               detect_cme_gap_improved (rows data_1d) (Some last_price);
                            market_structure = analyze_market_structure (rows data_1d) (Some last_price);
                            (gaps_above, gaps_below) =
                               find_all_gaps_comprehensive (rows data_1d) (Some last_price) 120;
                            R2_hist = find_historical_level (rows data_1d) (Some last_price) True 100;
                            S2_hist = find_historical_level (rows data_1d) (Some last_price) False 100
                        in case decide PP R1 S1 last_price atr high_volume gap_signal gap_level
                                  indicators gaps_above gaps_below R2_hist S2_hist of
                             Inl ex \<Rightarrow> Inl ex
                           | Inr p \<Rightarrow> Inr (finish p atr last_price market_structure)))))))"

text \<open>
  Data for examples: twenty 5-minute rows without any trade at 105, and five daily
  rows with an open hole between 100 and 102 under the price.
\<close>

definition quiet_5m :: frame where
  "quiet_5m = \<lparr>has_required_cols = True, rows = replicate 20 (mk_bar 105 105 105 105 0)\<rparr>"

definition week_1d :: frame where
  "week_1d = \<lparr>has_required_cols = True,
               rows = [mk_bar 99 100 98 99 10, mk_bar 103 104 102 103 10, mk_bar 103 104 102 103 10,
                       mk_bar 103 104 102 103 10, mk_bar 103 106 102 105 10]\<rparr>"

definition bearish_zone :: indicators where
  "bearish_zone = \<lparr>rsi_signal = BEARISH_ZONE, macd_signal = MACD_NEUTRAL, ema_signal = EMA_NEUTRAL\<rparr>"

text \<open>
  More data for examples: twenty quiet 5-minute rows at 102, indicators that speak
  against a short, a daily frame of one row, indicators that speak for a short, and a
  gap just over a price of 105.
\<close>

definition slow_5m :: frame where
  "slow_5m = \<lparr>has_required_cols = True, rows = replicate 20 (mk_bar 102 102 102 102 0)\<rparr>"

definition contrary :: indicators where
  "contrary = \<lparr>rsi_signal = RSI_NEUTRAL, macd_signal = BULLISH, ema_signal = EMA_NEUTRAL\<rparr>"

definition one_day :: frame where
  "one_day = \<lparr>has_required_cols = True, rows = [mk_bar 99 100 98 99 10]\<rparr>"

definition bearish :: indicators where
  "bearish = \<lparr>rsi_signal = BEARISH_ZONE, macd_signal = BEARISH, ema_signal = EMA_NEUTRAL\<rparr>"

definition gap_over_price :: gap_info where
  "gap_over_price = \<lparr>level = 106, bottom = 105 + 1 / 2, top = 106 + 1 / 2, gtype = GAP_DOWN,
                      age_days = 9, size_pct = 200 / 211, strength = WEAK\<rparr>"

section \<open>The decision logic of the first script\<close>

text \<open>
  \<open>analyze_pre_ny\<close> of the first strategy script, from the two flags to the percentage.
  It has no penalties and no market structure, and its ceiling is 5.  Its gap lists
  come from \<open>find_historical_gaps\<close>, whose records are these; the lists are arguments
  here.
\<close>

record historical_gap =
  hg_level :: real
  hg_type :: gap_type
  hg_age_days :: nat
  hg_size_pct :: real

definition initial_plan_v1 :: plan where
  "initial_plan_v1 =
     \<lparr>decision = NO_OPERAR_Consolidacion, confidence = 0, indicator_score = 0,
      entry_p = nan, sl_p = nan, tp1_p = nan, tp2_p = nan, tp3_p = nan\<rparr>"

text \<open>The indicator points of the short and of the long side, the same in every branch.\<close>

definition short_indicator_score_v1 :: "indicators \<Rightarrow> real" where
  "short_indicator_score_v1 indicators =
     (let indicator_score = 0;
          indicator_score =
            (if rsi_signal indicators \<in> {OVERBOUGHT, BEARISH_ZONE}
             then indicator_score + (if rsi_signal indicators = OVERBOUGHT then 1 else 1 / 2)
             else indicator_score);
          indicator_score =
            (if macd_signal indicators \<in> {BEARISH_CROSS, BEARISH}
             then indicator_score + (if macd_signal indicators = BEARISH_CROSS then 1 else 1 / 2)
             else indicator_score);
          indicator_score =
            (if ema_signal indicators \<in> {BELOW_STRONG, BELOW}
             then indicator_score + (if ema_signal indicators = BELOW_STRONG then 1 else 1 / 2)
             else indicator_score)
      in indicator_score)"

definition long_indicator_score_v1 :: "indicators \<Rightarrow> real" where
  "long_indicator_score_v1 indicators =
     (let indicator_score = 0;
          indicator_score =
            (if rsi_signal indicators \<in> {OVERSOLD, BULLISH_ZONE}
             then indicator_score + (if rsi_signal indicators = OVERSOLD then 1 else 1 / 2)
             else indicator_score);
          indicator_score =
            (if macd_signal indicators \<in> {BULLISH_CROSS, BULLISH}
             then indicator_score + (if macd_signal indicators = BULLISH_CROSS then 1 else 1 / 2)
             else indicator_score);
          indicator_score =
            (if ema_signal indicators \<in> {ABOVE_STRONG, ABOVE}
             then indicator_score + (if ema_signal indicators = ABOVE_STRONG then 1 else 1 / 2)
             else indicator_score)
      in indicator_score)"

definition short_to_fill_v1 ::
  "real \<Rightarrow> pyfloat \<Rightarrow> pyfloat \<Rightarrow> real \<Rightarrow> pyfloat \<Rightarrow> bool \<Rightarrow> pyfloat \<Rightarrow> indicators
     \<Rightarrow> historical_gap list \<Rightarrow> pyfloat \<Rightarrow> pyfloat \<Rightarrow> plan" where
  "short_to_fill_v1 PP R1 S1 last_price atr high_volume gap_level indicators gaps_below R2_hist S2_hist =
     (let confidence = 0 + 1;
          sl_p = (if f_gt R1 (Some last_price) then R1
                  else if \<not> isnan R2_hist \<and> f_gt R2_hist (Some last_price) then R2_hist
                  else f_add (Some last_price) (f_mul atr (Some (3 / 2))));
          tp1_p = gap_level;
          tp2_p = S1;
          tp3_p =
            (if gaps_below \<noteq> [] \<and> length gaps_below > 0 then
               (let valid_gaps = filter (\<lambda>g. f_lt (Some (hg_level g)) tp2_p) gaps_below
                in if valid_gaps \<noteq> [] then Some (hg_level (hd valid_gaps))
                   else if \<not> isnan S2_hist \<and> f_lt S2_hist tp2_p then S2_hist
                   else f_sub tp2_p (f_mul atr (Some 2)))
             else if \<not> isnan S2_hist \<and> f_lt S2_hist tp2_p then S2_hist
             else f_sub tp2_p (f_mul atr (Some 2)));
          price_above_pp = (last_price > PP);
          confidence = confidence + (if price_above_pp then 1 else 0);
          indicator_score = short_indicator_score_v1 indicators;
          confidence = confidence + indicator_score;
          confidence = confidence + (if high_volume then 1 else 0);
          min_confidence = (if price_above_pp then 2 else 5 / 2);
          (entry_p, decision) =
            (if confidence \<ge> min_confidence then
               (if last_price \<ge> PP \<or> \<bar>last_price - PP\<bar> < ATR_TOLERANCE atr last_price
                then (Some last_price, if confidence \<ge> 7 / 2 then SHORT_FUERTE else SHORT_MODERADO)
                else (Some PP, SHORT_PENDIENTE))
             else (nan, NO_OPERAR_Consolidacion))
      in \<lparr>decision = decision, confidence = confidence, indicator_score = indicator_score,
          entry_p = entry_p, sl_p = sl_p, tp1_p = tp1_p, tp2_p = tp2_p, tp3_p = tp3_p\<rparr>)"

definition long_to_fill_v1 ::
  "real \<Rightarrow> pyfloat \<Rightarrow> pyfloat \<Rightarrow> real \<Rightarrow> pyfloat \<Rightarrow> bool \<Rightarrow> pyfloat \<Rightarrow> indicators
     \<Rightarrow> historical_gap list \<Rightarrow> pyfloat \<Rightarrow> pyfloat \<Rightarrow> plan" where
  "long_to_fill_v1 PP R1 S1 last_price atr high_volume gap_level indicators gaps_above R2_hist S2_hist =
     (let confidence = 0 + 1;
          sl_p = (if f_lt S1 (Some last_price) then S1
                  else if \<not> isnan S2_hist \<and> f_lt S2_hist (Some last_price) then S2_hist
                  else f_sub (Some last_price) (f_mul atr (Some (3 / 2))));
          tp1_p = gap_level;
          tp2_p = R1;
          tp3_p =
            (if gaps_above \<noteq> [] \<and> length gaps_above > 0 then
               (let valid_gaps = filter (\<lambda>g. f_gt (Some (hg_level g)) tp2_p) gaps_above
                in if valid_gaps \<noteq> [] then Some (hg_level (hd valid_gaps))
                   else if \<not> isnan R2_hist \<and> f_gt R2_hist tp2_p then R2_hist
                   else f_add tp2_p (f_mul atr (Some 2)))
             else if \<not> isnan R2_hist \<and> f_gt R2_hist tp2_p then R2_hist
             else f_add tp2_p (f_mul atr (Some 2)));
          price_below_pp = (last_price < PP);
          confidence = confidence + (if price_below_pp then 1 else 0);
          indicator_score = long_indicator_score_v1 indicators;
          confidence = confidence + indicator_score;
          confidence = confidence + (if high_volume then 1 else 0);
          min_confidence = (if price_below_pp then 2 else 5 / 2);
          (entry_p, decision) =
            (if confidence \<ge> min_confidence then
               (if last_price \<le> PP \<or> \<bar>last_price - PP\<bar> < ATR_TOLERANCE atr last_price
                then (Some last_price, if confidence \<ge> 7 / 2 then LONG_FUERTE else LONG_MODERADO)
                else (Some PP, LONG_PENDIENTE))
             else (nan, NO_OPERAR_Consolidacion))
      in \<lparr>decision = decision, confidence = confidence, indicator_score = indicator_score,
          entry_p = entry_p, sl_p = sl_p, tp1_p = tp1_p, tp2_p = tp2_p, tp3_p = tp3_p\<rparr>)"

definition short_resistencia_v1 ::
  "real \<Rightarrow> pyfloat \<Rightarrow> real \<Rightarrow> pyfloat \<Rightarrow> bool \<Rightarrow> indicators \<Rightarrow> pyfloat \<Rightarrow> pyfloat \<Rightarrow> plan" where
  "short_resistencia_v1 PP S1 last_price atr high_volume indicators R2_hist S2_hist =
     (let confidence = 0 + 3 / 2;
          sl_p = (if \<not> isnan R2_hist then f_add R2_hist (f_mul atr (Some 1))
                  else f_add (Some last_price) (f_mul atr (Some (3 / 2))));
          tp1_p = Some PP;
          tp2_p = S1;
          tp3_p = (if \<not> isnan S2_hist then S2_hist else f_sub S1 (f_mul atr (Some 2)));
          confidence = (if last_price > PP then confidence + 1 else confidence);
          indicator_score = short_indicator_score_v1 indicators;
          confidence = confidence + indicator_score;
          confidence = confidence + (if high_volume then 1 else 0);
          (entry_p, decision) =
            (if confidence \<ge> 3 then (Some last_price, SHORT_RESISTENCIA_Sin_Gap)
             else (nan, NO_OPERAR_Consolidacion))
      in \<lparr>decision = decision, confidence = confidence, indicator_score = indicator_score,
          entry_p = entry_p, sl_p = sl_p, tp1_p = tp1_p, tp2_p = tp2_p, tp3_p = tp3_p\<rparr>)"

definition long_soporte_v1 ::
  "real \<Rightarrow> pyfloat \<Rightarrow> real \<Rightarrow> pyfloat \<Rightarrow> bool \<Rightarrow> indicators \<Rightarrow> pyfloat \<Rightarrow> pyfloat \<Rightarrow> plan" where
  "long_soporte_v1 PP R1 last_price atr high_volume indicators R2_hist S2_hist =
     (let confidence = 0 + 3 / 2;
          sl_p = (if \<not> isnan S2_hist then f_sub S2_hist (f_mul atr (Some 1))
                  else f_sub (Some last_price) (f_mul atr (Some (3 / 2))));
          tp1_p = Some PP;
          tp2_p = R1;
          tp3_p = (if \<not> isnan R2_hist then R2_hist else f_add R1 (f_mul atr (Some 2)));
          confidence = (if last_price < PP then confidence + 1 else confidence);
          indicator_score = long_indicator_score_v1 indicators;
          confidence = confidence + indicator_score;
          confidence = confidence + (if high_volume then 1 else 0);
          (entry_p, decision) =
            (if confidence \<ge> 3 then (Some last_price, LONG_SOPORTE_Sin_Gap)
             else (nan, NO_OPERAR_Consolidacion))
      in \<lparr>decision = decision, confidence = confidence, indicator_score = indicator_score,
          entry_p = entry_p, sl_p = sl_p, tp1_p = tp1_p, tp2_p = tp2_p, tp3_p = tp3_p\<rparr>)"

definition decide_v1 ::
  "real \<Rightarrow> pyfloat \<Rightarrow> pyfloat \<Rightarrow> real \<Rightarrow> pyfloat \<Rightarrow> bool \<Rightarrow> gap_signal \<Rightarrow> pyfloat \<Rightarrow> indicators
     \<Rightarrow> historical_gap list \<Rightarrow> historical_gap list \<Rightarrow> pyfloat \<Rightarrow> pyfloat \<Rightarrow> analysis_error + plan" where
  "decide_v1 PP R1 S1 last_price atr high_volume gap_signal gap_level indicators
             gaps_above gaps_below R2_hist S2_hist =
     (if (\<not> isnan R2_hist \<or> \<not> isnan S2_hist) \<and> last_price = 0 then Inl ZeroDivisionError
      else
        (let strong_resistance =
               (case R2_hist of None \<Rightarrow> False
                              | Some r \<Rightarrow> \<bar>last_price - r\<bar> / last_price < 1 / 100);
             strong_support =
               (case S2_hist of None \<Rightarrow> False
                              | Some s \<Rightarrow> \<bar>last_price - s\<bar> / last_price < 1 / 100)
         in case gap_signal of
              SHORT_TO_FILL \<Rightarrow>
                Inr (short_to_fill_v1 PP R1 S1 last_price atr high_volume gap_level indicators
                       gaps_below R2_hist S2_hist)
            | LONG_TO_FILL \<Rightarrow>
                Inr (long_to_fill_v1 PP R1 S1 last_price atr high_volume gap_level indicators
                       gaps_above R2_hist S2_hist)
            | NO_GAP \<Rightarrow>
                if strong_resistance \<and> f_ge (Some last_price) R2_hist then
                  Inr (short_resistencia_v1 PP S1 last_price atr high_volume indicators R2_hist S2_hist)
                else if strong_support \<and> f_le (Some last_price) S2_hist then
                  Inr (long_soporte_v1 PP R1 last_price atr high_volume indicators R2_hist S2_hist)
                else Inr initial_plan_v1))"

definition max_score_v1 :: real where
  "max_score_v1 = 5"

text \<open>The end of the first script's analysis: the repaired plan and the percentage.\<close>

definition finish_v1 :: "plan \<Rightarrow> pyfloat \<Rightarrow> real \<Rightarrow> plan \<times> real" where
  "finish_v1 p atr last_price =
     (let (entry_p, sl_p, tp1_p, tp2_p) =
            validate_levels (decision p) (entry_p p) (sl_p p) (tp1_p p) (tp2_p p) atr (Some last_price);
          tp3_p =
            (if py_in ''SHORT'' (decision_text (decision p)) \<and> \<not> isnan (tp3_p p) then
               (if \<not> isnan tp2_p \<and> f_ge (tp3_p p) tp2_p
                then f_sub tp2_p (f_mul atr (Some 1)) else tp3_p p)
             else if py_in ''LONG'' (decision_text (decision p)) \<and> \<not> isnan (tp3_p p) then
               (if \<not> isnan tp2_p \<and> f_le (tp3_p p) tp2_p
                then f_add tp2_p (f_mul atr (Some 1)) else tp3_p p)
             else tp3_p p);
          confidence_pct = min 100 ((confidence p / max_score_v1) * 100)
      in (p\<lparr>entry_p := entry_p, sl_p := sl_p, tp1_p := tp1_p, tp2_p := tp2_p, tp3_p := tp3_p\<rparr>,
          confidence_pct))"

text \<open>Indicators that all speak for a short, each at full strength.\<close>

definition strong_bear :: indicators where
  "strong_bear = \<lparr>rsi_signal = OVERBOUGHT, macd_signal = BEARISH_CROSS, ema_signal = BELOW_STRONG\<rparr>"

section \<open>Properties\<close>

lemma iloc_minus2:
  "2 \<le> length xs \<Longrightarrow> iloc xs (- 2) = Some (xs ! (length xs - 2))"
  by (auto simp: iloc_def nat_diff_distrib')

subsection \<open>Pivot points\<close>

text \<open>
  C5, with the ordering as amended.  On a daily frame with at least two rows whose
  second-to-last row has numeric high \<open>H\<close>, low \<open>L\<close> and close \<open>C\<close>, the pivot calculation
  succeeds with \<open>PP = (H + L + C) / 3\<close>, \<open>R1 = 2 PP - L\<close> and \<open>S1 = 2 PP - H\<close>.  The order
  \<open>R1 > PP > S1\<close> holds exactly when \<open>2 L - H < C < 2 H - L\<close>, so it holds for every row
  with \<open>L \<le> C \<le> H\<close> and \<open>L < H\<close>; \<open>H \<noteq> L\<close> alone does not give it.
\<close>

theorem pivot_points_formula_and_order:
  assumes "has_required_cols df" and "2 \<le> length (rows df)"
    and "rows df ! (length (rows df) - 2) = b"
    and "High b = Some H" and "Low b = Some L" and "Close b = Some C"
  shows "\<exists>PP R1 S1.
           calculate_pivot_points (Downloaded df) = (Some PP, Some R1, Some S1, df, None) \<and>
           PP = (H + L + C) / 3 \<and> R1 = 2 * PP - L \<and> S1 = 2 * PP - H \<and>
           ((R1 > PP \<and> PP > S1) \<longleftrightarrow> (2 * L - H < C \<and> C < 2 * H - L)) \<and>
           (L \<le> C \<and> C \<le> H \<and> L < H \<longrightarrow> R1 > PP \<and> PP > S1)"
proof -
  from assms(2) have ne: "rows df \<noteq> []" by auto
  have run: "calculate_pivot_points (Downloaded df) =
           (Some ((H + L + C) / 3), Some (2 * ((H + L + C) / 3) - L),
            Some (2 * ((H + L + C) / 3) - H), df, None)"
    using assms ne
    by (simp add: calculate_pivot_points_def iloc_minus2 safe_float_def Let_def)
  have iff: "(2 * ((H + L + C) / 3) - L > (H + L + C) / 3 \<and>
          (H + L + C) / 3 > 2 * ((H + L + C) / 3) - H)
         \<longleftrightarrow> (2 * L - H < C \<and> C < 2 * H - L)"
    by (auto simp: field_simps)
  have ord: "L \<le> C \<and> C \<le> H \<and> L < H \<longrightarrow>
         2 * ((H + L + C) / 3) - L > (H + L + C) / 3 \<and>
         (H + L + C) / 3 > 2 * ((H + L + C) / 3) - H"
    by (auto simp: field_simps)
  from run iff ord show ?thesis by blast
qed

text \<open>The spec's scenario: \<open>H = 100\<close>, \<open>L = 90\<close>, \<open>C = 95\<close> gives \<open>PP = 95\<close>, \<open>R1 = 100\<close>, \<open>S1 = 90\<close>.\<close>

theorem pivot_points_formula_and_order_witness:
  "calculate_pivot_points
     (Downloaded \<lparr>has_required_cols = True, rows = [mk_bar 92 100 90 95 10, mk_bar 95 97 94 96 10]\<rparr>)
   = (Some 95, Some 100, Some 90,
      \<lparr>has_required_cols = True, rows = [mk_bar 92 100 90 95 10, mk_bar 95 97 94 96 10]\<rparr>, None)"
  using pivot_points_formula_and_order
    [of "\<lparr>has_required_cols = True, rows = [mk_bar 92 100 90 95 10, mk_bar 95 97 94 96 10]\<rparr>"
        "mk_bar 92 100 90 95 10" 100 90 95]
  by (simp add: mk_bar_def)

text \<open>
  C5 as stated fails: a row with \<open>H = 100\<close>, \<open>L = 90\<close> (so \<open>H \<noteq> L\<close>) and a close of \<open>50\<close>
  outside that range gives \<open>PP = 80\<close>, \<open>R1 = 70\<close>, \<open>S1 = 60\<close>, and \<open>R1 < PP\<close>.
\<close>

theorem pivot_order_counterexample:
  "High (mk_bar 92 100 90 50 10) \<noteq> Low (mk_bar 92 100 90 50 10) \<and>
   calculate_pivot_points
     (Downloaded \<lparr>has_required_cols = True, rows = [mk_bar 92 100 90 50 10, mk_bar 95 97 94 96 10]\<rparr>)
   = (Some 80, Some 70, Some 60,
      \<lparr>has_required_cols = True, rows = [mk_bar 92 100 90 50 10, mk_bar 95 97 94 96 10]\<rparr>, None) \<and>
   \<not> f_gt (Some 70) (Some 80)"
  by (simp add: calculate_pivot_points_def iloc_def safe_float_def mk_bar_def Let_def f_gt_def f_lt_def)

subsection \<open>Active gap detection\<close>

text \<open>What \<open>detect_cme_gap\<close> computes, for any rounding function.\<close>

lemma cme_gap_run:
  assumes "2 \<le> length df_1d" and "Close (df_1d ! (length df_1d - 2)) = Some c"
  shows "detect_cme_gap rnd df_1d (Some p) =
           (if p > rnd (c * rnd (1 + rnd (5 / 1000))) then (SHORT_TO_FILL, Some c)
            else if p < rnd (c * rnd (1 - rnd (5 / 1000))) then (LONG_TO_FILL, Some c)
            else (NO_GAP, nan))"
proof -
  from assms(1) have ne: "df_1d \<noteq> []" by auto
  show ?thesis
    using assms ne
    by (simp add: detect_cme_gap_def iloc_minus2 safe_float_def isnan_def THRESHOLD_PCT_def
        f_gt_def f_lt_def f_mul_def Let_def)
qed

text \<open>
  The error of a rounded product \<open>rnd (c * rnd s)\<close>, where \<open>s\<close> is \<open>k\<close> up to the rounding of
  \<open>0.005\<close>: three roundings, each of relative error at most \<open>u\<close>.
\<close>

lemma rounded_product_bounds:
  fixes u k s rs c t :: real
  assumes u: "0 \<le> u" "u < 1" and k: "5 / 1000 \<le> k"
    and s: "\<bar>s - k\<bar> \<le> 5 / 1000 * u"
    and rs: "\<bar>rs - s\<bar> \<le> u * \<bar>s\<bar>"
    and c: "0 < c"
    and t: "\<bar>t - c * rs\<bar> \<le> u * \<bar>c * rs\<bar>"
  shows "c * k * (1 - u) ^ 3 \<le> t \<and> t \<le> c * k * (1 + u) ^ 3"
proof -
  have ku: "5 / 1000 * u \<le> k * u" by (rule mult_right_mono [OF k u(1)])
  have e1: "k * (1 + u) = k + k * u" and e2: "k * (1 - u) = k - k * u"
    by (simp_all add: algebra_simps)
  have s_hi: "s \<le> k * (1 + u)" unfolding e1 using s ku by linarith
  have s_lo: "k * (1 - u) \<le> s" unfolding e2 using s ku by linarith
  have kpos: "0 < k" using k by simp
  have s_pos: "0 < s" using s_lo kpos u by (smt (verit) mult_pos_pos)
  have rs_hi: "rs \<le> s * (1 + u)" using rs s_pos by (simp add: algebra_simps abs_le_iff)
  have rs_lo: "s * (1 - u) \<le> rs" using rs s_pos by (simp add: algebra_simps abs_le_iff)
  have rs_hi2: "rs \<le> k * (1 + u) ^ 2"
  proof -
    have "s * (1 + u) \<le> k * (1 + u) * (1 + u)" using s_hi u by (simp add: mult_right_mono)
    with rs_hi show ?thesis by (simp add: power2_eq_square algebra_simps)
  qed
  have rs_lo2: "k * (1 - u) ^ 2 \<le> rs"
  proof -
    have "k * (1 - u) * (1 - u) \<le> s * (1 - u)" using s_lo u by (simp add: mult_right_mono)
    with rs_lo show ?thesis by (simp add: power2_eq_square algebra_simps)
  qed
  have rs_pos: "0 < rs"
  proof -
    have "0 < s * (1 - u)" using s_pos u by simp
    with rs_lo show ?thesis by simp
  qed
  have pr_pos: "0 < c * rs" using c rs_pos by simp
  have t_hi: "t \<le> c * rs * (1 + u)" using t pr_pos by (simp add: algebra_simps abs_le_iff)
  have t_lo: "c * rs * (1 - u) \<le> t" using t pr_pos by (simp add: algebra_simps abs_le_iff)
  have "c * rs * (1 + u) \<le> c * (k * (1 + u) ^ 2) * (1 + u)"
    using rs_hi2 c u by (simp add: mult_left_mono mult_right_mono)
  with t_hi have hi: "t \<le> c * k * (1 + u) ^ 3" by (simp add: power3_eq_cube power2_eq_square algebra_simps)
  have "c * (k * (1 - u) ^ 2) * (1 - u) \<le> c * rs * (1 - u)"
    using rs_lo2 c u by (simp add: mult_left_mono mult_right_mono)
  with t_lo have lo: "c * k * (1 - u) ^ 3 \<le> t" by (simp add: power3_eq_cube power2_eq_square algebra_simps)
  from lo hi show ?thesis by simp
qed

lemma upper_threshold_bounds:
  assumes "0 \<le> u" "u < 1" "0 < c"
    and "rounds_within u rnd (5 / 1000)"
    and "rounds_within u rnd (1 + rnd (5 / 1000))"
    and "rounds_within u rnd (c * rnd (1 + rnd (5 / 1000)))"
  shows "c * (1 + 5 / 1000) * (1 - u) ^ 3 \<le> rnd (c * rnd (1 + rnd (5 / 1000))) \<and>
         rnd (c * rnd (1 + rnd (5 / 1000))) \<le> c * (1 + 5 / 1000) * (1 + u) ^ 3"
proof (rule rounded_product_bounds [where s = "1 + rnd (5 / 1000)" and rs = "rnd (1 + rnd (5 / 1000))"])
  show "\<bar>1 + rnd (5 / 1000) - (1 + 5 / 1000)\<bar> \<le> 5 / 1000 * u"
    using assms(4) by (simp add: rounds_within_def)
qed (use assms in \<open>simp_all add: rounds_within_def\<close>)

lemma lower_threshold_bounds:
  assumes "0 \<le> u" "u < 1" "0 < c"
    and "rounds_within u rnd (5 / 1000)"
    and "rounds_within u rnd (1 - rnd (5 / 1000))"
    and "rounds_within u rnd (c * rnd (1 - rnd (5 / 1000)))"
  shows "c * (1 - 5 / 1000) * (1 - u) ^ 3 \<le> rnd (c * rnd (1 - rnd (5 / 1000))) \<and>
         rnd (c * rnd (1 - rnd (5 / 1000))) \<le> c * (1 - 5 / 1000) * (1 + u) ^ 3"
proof (rule rounded_product_bounds [where s = "1 - rnd (5 / 1000)" and rs = "rnd (1 - rnd (5 / 1000))"])
  have "\<bar>1 - rnd (5 / 1000) - (1 - 5 / 1000)\<bar> = \<bar>rnd (5 / 1000) - 5 / 1000\<bar>"
    by (simp add: abs_minus_commute)
  then show "\<bar>1 - rnd (5 / 1000) - (1 - 5 / 1000)\<bar> \<le> 5 / 1000 * u"
    using assms(4) by (simp add: rounds_within_def)
qed (use assms in \<open>simp_all add: rounds_within_def\<close>)

lemma cme_gap_margin:
  assumes len: "2 \<le> length df_1d" and cl: "Close (df_1d ! (length df_1d - 2)) = Some c"
    and u: "0 \<le> u" "u < 1" and c: "0 < c"
    and r0: "rounds_within u rnd (5 / 1000)"
    and r1: "rounds_within u rnd (1 + rnd (5 / 1000))"
    and r2: "rounds_within u rnd (1 - rnd (5 / 1000))"
    and r3: "rounds_within u rnd (c * rnd (1 + rnd (5 / 1000)))"
    and r4: "rounds_within u rnd (c * rnd (1 - rnd (5 / 1000)))"
  shows "(c * (1 + 5 / 1000) * (1 + u) ^ 3 < p \<longrightarrow>
            detect_cme_gap rnd df_1d (Some p) = (SHORT_TO_FILL, Some c)) \<and>
         (p < c * (1 - 5 / 1000) * (1 - u) ^ 3 \<longrightarrow>
            detect_cme_gap rnd df_1d (Some p) = (LONG_TO_FILL, Some c)) \<and>
         (c * (1 - 5 / 1000) * (1 + u) ^ 3 \<le> p \<and> p \<le> c * (1 + 5 / 1000) * (1 - u) ^ 3 \<longrightarrow>
            detect_cme_gap rnd df_1d (Some p) = (NO_GAP, nan))"
proof -
  note up = upper_threshold_bounds [OF u c r0 r1 r3]
  note lo = lower_threshold_bounds [OF u c r0 r2 r4]
  have "c * (1 - 5 / 1000) \<le> c * (1 + 5 / 1000)" using c by simp
  then have "c * (1 - 5 / 1000) * (1 - u) ^ 3 \<le> c * (1 + 5 / 1000) * (1 - u) ^ 3"
    using u by (intro mult_right_mono) simp_all
  with up have cross: "c * (1 - 5 / 1000) * (1 - u) ^ 3 \<le> rnd (c * rnd (1 + rnd (5 / 1000)))"
    by linarith
  show ?thesis
    unfolding cme_gap_run [OF len cl] using up lo cross by auto
qed

text \<open>The relative error of \<open>round_double\<close> is at most \<open>2 ^ -53\<close>.\<close>

lemma ulp_of_powi: "ulp_of e = 2 powi (e - 52)"
  by (simp add: ulp_of_def power_int_def field_simps)

lemma exponent_of_bounds:
  "1 / 2 ^ n \<le> x \<Longrightarrow> x < 2 * 2 ^ n \<Longrightarrow>
   2 powi (exponent_of n x) \<le> x \<and> x < 2 powi (exponent_of n x + 1)"
proof (induction n arbitrary: x)
  case 0
  then show ?case by simp
next
  case (Suc n)
  show ?case
  proof (cases "2 \<le> x")
    case True
    have "1 / 2 ^ n \<le> (1::real)" by (simp add: field_simps)
    with True have a: "1 / 2 ^ n \<le> x / 2" by linarith
    from Suc.prems(2) have b: "x / 2 < 2 * 2 ^ n" by simp
    from Suc.IH [OF a b] have "2 powi exponent_of n (x / 2) * 2 \<le> x"
      and "x < 2 powi (exponent_of n (x / 2) + 1) * 2" by (simp_all add: field_simps)
    moreover have "(2::real) powi (exponent_of n (x / 2) + 1) = 2 powi exponent_of n (x / 2) * 2"
      and "(2::real) powi (exponent_of n (x / 2) + 1 + 1) = 2 powi (exponent_of n (x / 2) + 1) * 2"
      by (simp_all add: power_int_add)
    ultimately show ?thesis using True by simp
  next
    case False
    show ?thesis
    proof (cases "x < 1")
      case True
      from Suc.prems(1) have a: "1 / 2 ^ n \<le> x * 2" by (simp add: field_simps)
      have "(1::real) \<le> 2 ^ n" by simp
      with True have b: "x * 2 < 2 * 2 ^ n" by linarith
      from Suc.IH [OF a b] have "2 powi exponent_of n (x * 2) \<le> x * 2"
        and "x * 2 < 2 powi (exponent_of n (x * 2) + 1)" by simp_all
      moreover have "(2::real) powi (exponent_of n (x * 2) + 1) = 2 powi exponent_of n (x * 2) * 2"
        and "(2::real) powi exponent_of n (x * 2) = 2 powi (exponent_of n (x * 2) - 1) * 2"
        by (simp_all add: power_int_add power_int_diff)
      ultimately show ?thesis using True \<open>\<not> 2 \<le> x\<close> by simp
    next
      case False
      with \<open>\<not> 2 \<le> x\<close> show ?thesis by simp
    qed
  qed
qed

lemma round_half_even_close: "\<bar>of_int (round_half_even y) - y\<bar> \<le> 1 / 2"
proof -
  have "of_int \<lfloor>y\<rfloor> \<le> y" and "y < of_int \<lfloor>y\<rfloor> + 1" by linarith+
  then show ?thesis by (auto simp: round_half_even_def Let_def)
qed

lemma round_double_accurate:
  assumes lo: "1 / 2 ^ 1100 \<le> \<bar>x\<bar>" and hi: "\<bar>x\<bar> < 2 * 2 ^ 1100"
  shows "rounds_within (1 / 2 ^ 53) round_double x"
proof -
  define e where "e = exponent_of 1100 \<bar>x\<bar>"
  define q :: real where "q = 2 powi (e - 52)"
  define m where "m = round_half_even (\<bar>x\<bar> / q)"
  have "0 < \<bar>x\<bar>" using lo by (smt (verit) divide_pos_pos zero_less_power)
  then have x0: "x \<noteq> 0" by simp
  have qpos: "0 < q" by (simp add: q_def)
  from exponent_of_bounds [OF lo hi] have elo: "2 powi e \<le> \<bar>x\<bar>" by (simp add: e_def)
  have rd: "round_double x = sgn x * of_int m * q"
    using x0 by (simp add: round_double_def Let_def ulp_of_powi e_def q_def m_def)
  have "x = sgn x * \<bar>x\<bar>" by (simp add: sgn_mult_abs)
  then have "round_double x - x = sgn x * (of_int m * q - \<bar>x\<bar>)"
    unfolding rd by (simp add: algebra_simps)
  then have "\<bar>round_double x - x\<bar> = \<bar>of_int m * q - \<bar>x\<bar>\<bar>"
    using x0 by (simp add: abs_mult abs_sgn_eq)
  also have "of_int m * q - \<bar>x\<bar> = (of_int m - \<bar>x\<bar> / q) * q"
    using qpos by (simp add: field_simps)
  also have "\<bar>(of_int m - \<bar>x\<bar> / q) * q\<bar> = \<bar>of_int m - \<bar>x\<bar> / q\<bar> * q"
    using qpos by (simp add: abs_mult)
  also have "\<dots> \<le> 1 / 2 * q"
    using round_half_even_close [of "\<bar>x\<bar> / q"] qpos unfolding m_def
    by (intro mult_right_mono) simp_all
  also have "1 / 2 * q = 2 powi e / 2 ^ 53"
    by (simp add: q_def power_int_diff)
  also have "\<dots> \<le> \<bar>x\<bar> / 2 ^ 53" using elo by (simp add: divide_right_mono)
  finally show ?thesis by (simp add: rounds_within_def)
qed

text \<open>The two rounded factors of the source, and the accuracy of the five roundings.\<close>

lemma rounded_upper_factor:
  "round_double (1 + round_double (5 / 1000)) = 1131529406376837 / 1125899906842624"
  by code_simp

lemma rounded_lower_factor:
  "round_double (1 - round_double (5 / 1000)) = 8962163258467287 / 9007199254740992"
  by code_simp

lemma factors_accurate:
  "rounds_within (1 / 2 ^ 53) round_double (5 / 1000) \<and>
   rounds_within (1 / 2 ^ 53) round_double (1 + round_double (5 / 1000)) \<and>
   rounds_within (1 / 2 ^ 53) round_double (1 - round_double (5 / 1000))"
  by code_simp

lemma products_accurate:
  assumes "1 / 2 ^ 1000 \<le> c" and "c \<le> 2 ^ 1000"
  shows "rounds_within (1 / 2 ^ 53) round_double (c * round_double (1 + round_double (5 / 1000))) \<and>
         rounds_within (1 / 2 ^ 53) round_double (c * round_double (1 - round_double (5 / 1000)))"
proof -
  have c0: "0 < c" using assms(1) by (smt (verit) divide_pos_pos zero_less_power)
  have lo: "(1::real) / 2 ^ 1100 \<le> 1 / 2 ^ 1000 * (1 / 2)"
    by (simp add: field_simps)
  have hi: "(2::real) ^ 1000 * 2 < 2 * 2 ^ 1100" by simp
  have up: "c * (1 / 2) \<le> c * (1131529406376837 / 1125899906842624)"
    and up2: "c * (1131529406376837 / 1125899906842624) \<le> c * 2"
    and dn: "c * (1 / 2) \<le> c * (8962163258467287 / 9007199254740992)"
    and dn2: "c * (8962163258467287 / 9007199254740992) \<le> c * 2"
    using c0 by simp_all
  have a: "1 / 2 ^ 1000 * (1 / 2) \<le> c * (1 / 2)" using assms(1) by simp
  have b: "c * 2 \<le> 2 ^ 1000 * 2" using assms(2) by simp
  have p1: "0 < c * (1131529406376837 / 1125899906842624)"
    and p2: "0 < c * (8962163258467287 / 9007199254740992)" using c0 by simp_all
  have "rounds_within (1 / 2 ^ 53) round_double (c * (1131529406376837 / 1125899906842624))"
  proof (rule round_double_accurate)
    show "1 / 2 ^ 1100 \<le> \<bar>c * (1131529406376837 / 1125899906842624)\<bar>"
      using lo a up p1 by linarith
    show "\<bar>c * (1131529406376837 / 1125899906842624)\<bar> < 2 * 2 ^ 1100"
      using hi b up2 p1 by linarith
  qed
  moreover have "rounds_within (1 / 2 ^ 53) round_double (c * (8962163258467287 / 9007199254740992))"
  proof (rule round_double_accurate)
    show "1 / 2 ^ 1100 \<le> \<bar>c * (8962163258467287 / 9007199254740992)\<bar>"
      using lo a dn p2 by linarith
    show "\<bar>c * (8962163258467287 / 9007199254740992)\<bar> < 2 * 2 ^ 1100"
      using hi b dn2 p2 by linarith
  qed
  ultimately show ?thesis
    unfolding rounded_upper_factor rounded_lower_factor by simp
qed

lemma cme_gap_double:
  assumes len: "2 \<le> length df_1d" and cl: "Close (df_1d ! (length df_1d - 2)) = Some c"
    and lo: "1 / 2 ^ 1000 \<le> c" and hi: "c \<le> 2 ^ 1000"
  shows "(c * (1 + 5 / 1000) * (1 + 1 / 2 ^ 53) ^ 3 < p \<longrightarrow>
            detect_cme_gap round_double df_1d (Some p) = (SHORT_TO_FILL, Some c)) \<and>
         (p < c * (1 - 5 / 1000) * (1 - 1 / 2 ^ 53) ^ 3 \<longrightarrow>
            detect_cme_gap round_double df_1d (Some p) = (LONG_TO_FILL, Some c)) \<and>
         (c * (1 - 5 / 1000) * (1 + 1 / 2 ^ 53) ^ 3 \<le> p \<and>
          p \<le> c * (1 + 5 / 1000) * (1 - 1 / 2 ^ 53) ^ 3 \<longrightarrow>
            detect_cme_gap round_double df_1d (Some p) = (NO_GAP, nan))"
proof -
  have c0: "0 < c" using lo by (smt (verit) divide_pos_pos zero_less_power)
  have u0: "(0::real) \<le> 1 / 2 ^ 53" and u1: "(1::real) / 2 ^ 53 < 1" by simp_all
  from factors_accurate have r0: "rounds_within (1 / 2 ^ 53) round_double (5 / 1000)"
    and r1: "rounds_within (1 / 2 ^ 53) round_double (1 + round_double (5 / 1000))"
    and r2: "rounds_within (1 / 2 ^ 53) round_double (1 - round_double (5 / 1000))"
    by blast+
  from products_accurate [OF lo hi]
  have r3: "rounds_within (1 / 2 ^ 53) round_double (c * round_double (1 + round_double (5 / 1000)))"
    and r4: "rounds_within (1 / 2 ^ 53) round_double (c * round_double (1 - round_double (5 / 1000)))"
    by blast+
  show ?thesis by (rule cme_gap_margin [OF len cl u0 u1 c0 r0 r1 r2 r3 r4])
qed

text \<open>
  C4, as amended.  The simple detector \<open>detect_cme_gap\<close>, on a daily series with at least
  two rows whose second-to-last close \<open>c\<close> is numeric, compares the price with the two
  rounded products of the source, \<open>rnd (c * rnd (1 + rnd 0.005))\<close> and
  \<open>rnd (c * rnd (1 - rnd 0.005))\<close>: it answers \<open>SHORT_TO_FILL\<close> at level \<open>c\<close> when the price is
  above the first, \<open>LONG_TO_FILL\<close> at level \<open>c\<close> when it is below the second, and \<open>NO_GAP\<close>
  otherwise.  In exact arithmetic the two products are \<open>c * 1.005\<close> and \<open>c * 0.995\<close>, and for
  a positive close the two tests say that the price is above, or below, the close by
  more than 0.5 percent of it.  With the rounding of doubles and a close between
  \<open>2 ^ -1000\<close> and \<open>2 ^ 1000\<close> the answer is \<open>SHORT_TO_FILL\<close> for a price above
  \<open>c * 1.005 * (1 + 2 ^ -53) ^ 3\<close>, \<open>LONG_TO_FILL\<close> for a price below
  \<open>c * 0.995 * (1 - 2 ^ -53) ^ 3\<close>, and \<open>NO_GAP\<close> for a price from
  \<open>c * 0.995 * (1 + 2 ^ -53) ^ 3\<close> to \<open>c * 1.005 * (1 - 2 ^ -53) ^ 3\<close>; for a price nearer to a
  threshold than that, the rounded product decides.
\<close>

theorem detect_cme_gap_spec:
  assumes "2 \<le> length df_1d" and "Close (df_1d ! (length df_1d - 2)) = Some c"
  shows "detect_cme_gap rnd df_1d (Some p) =
           (if p > rnd (c * rnd (1 + rnd (5 / 1000))) then (SHORT_TO_FILL, Some c)
            else if p < rnd (c * rnd (1 - rnd (5 / 1000))) then (LONG_TO_FILL, Some c)
            else (NO_GAP, nan)) \<and>
         detect_cme_gap (\<lambda>x. x) df_1d (Some p) =
           (if p > c * (1 + 5 / 1000) then (SHORT_TO_FILL, Some c)
            else if p < c * (1 - 5 / 1000) then (LONG_TO_FILL, Some c)
            else (NO_GAP, nan)) \<and>
         (0 < c \<longrightarrow> (p > c * (1 + 5 / 1000) \<longleftrightarrow> (p - c) / c > 5 / 1000) \<and>
                    (p < c * (1 - 5 / 1000) \<longleftrightarrow> (c - p) / c > 5 / 1000)) \<and>
         (1 / 2 ^ 1000 \<le> c \<and> c \<le> 2 ^ 1000 \<longrightarrow>
            (c * (1 + 5 / 1000) * (1 + 1 / 2 ^ 53) ^ 3 < p \<longrightarrow>
               detect_cme_gap round_double df_1d (Some p) = (SHORT_TO_FILL, Some c)) \<and>
            (p < c * (1 - 5 / 1000) * (1 - 1 / 2 ^ 53) ^ 3 \<longrightarrow>
               detect_cme_gap round_double df_1d (Some p) = (LONG_TO_FILL, Some c)) \<and>
            (c * (1 - 5 / 1000) * (1 + 1 / 2 ^ 53) ^ 3 \<le> p \<and>
             p \<le> c * (1 + 5 / 1000) * (1 - 1 / 2 ^ 53) ^ 3 \<longrightarrow>
               detect_cme_gap round_double df_1d (Some p) = (NO_GAP, nan)))"
proof -
  note run = cme_gap_run [OF assms]
  have rounded: "detect_cme_gap rnd df_1d (Some p) =
           (if p > rnd (c * rnd (1 + rnd (5 / 1000))) then (SHORT_TO_FILL, Some c)
            else if p < rnd (c * rnd (1 - rnd (5 / 1000))) then (LONG_TO_FILL, Some c)
            else (NO_GAP, nan))"
    by (rule run)
  have exact: "detect_cme_gap (\<lambda>x. x) df_1d (Some p) =
           (if p > c * (1 + 5 / 1000) then (SHORT_TO_FILL, Some c)
            else if p < c * (1 - 5 / 1000) then (LONG_TO_FILL, Some c)
            else (NO_GAP, nan))"
    by (rule run)
  have rel: "0 < c \<longrightarrow> (p > c * (1 + 5 / 1000) \<longleftrightarrow> (p - c) / c > 5 / 1000) \<and>
                    (p < c * (1 - 5 / 1000) \<longleftrightarrow> (c - p) / c > 5 / 1000)"
    by (auto simp: field_simps)
  have margin: "1 / 2 ^ 1000 \<le> c \<and> c \<le> 2 ^ 1000 \<longrightarrow>
            (c * (1 + 5 / 1000) * (1 + 1 / 2 ^ 53) ^ 3 < p \<longrightarrow>
               detect_cme_gap round_double df_1d (Some p) = (SHORT_TO_FILL, Some c)) \<and>
            (p < c * (1 - 5 / 1000) * (1 - 1 / 2 ^ 53) ^ 3 \<longrightarrow>
               detect_cme_gap round_double df_1d (Some p) = (LONG_TO_FILL, Some c)) \<and>
            (c * (1 - 5 / 1000) * (1 + 1 / 2 ^ 53) ^ 3 \<le> p \<and>
             p \<le> c * (1 + 5 / 1000) * (1 - 1 / 2 ^ 53) ^ 3 \<longrightarrow>
               detect_cme_gap round_double df_1d (Some p) = (NO_GAP, nan))"
    using cme_gap_double [OF assms] by blast
  from rounded exact rel margin show ?thesis by blast
qed

text \<open>
  The spec's scenario, with the rounding of doubles: a prior close of 100 and a price of
  105, of 95 and of 100.
\<close>

theorem detect_cme_gap_spec_witness:
  "detect_cme_gap round_double [mk_bar 99 101 98 100 10, mk_bar 104 106 103 105 10] (Some 105)
     = (SHORT_TO_FILL, Some 100) \<and>
   detect_cme_gap round_double [mk_bar 99 101 98 100 10, mk_bar 104 106 103 105 10] (Some 95)
     = (LONG_TO_FILL, Some 100) \<and>
   detect_cme_gap round_double [mk_bar 99 101 98 100 10, mk_bar 104 106 103 105 10] (Some 100)
     = (NO_GAP, nan)"
  using detect_cme_gap_spec [of "[mk_bar 99 101 98 100 10, mk_bar 104 106 103 105 10]" 100 round_double 105,
      THEN conjunct2, THEN conjunct2, THEN conjunct2]
    detect_cme_gap_spec [of "[mk_bar 99 101 98 100 10, mk_bar 104 106 103 105 10]" 100 round_double 95,
      THEN conjunct2, THEN conjunct2, THEN conjunct2]
    detect_cme_gap_spec [of "[mk_bar 99 101 98 100 10, mk_bar 104 106 103 105 10]" 100 round_double 100,
      THEN conjunct2, THEN conjunct2, THEN conjunct2]
  by (simp add: mk_bar_def power3_eq_cube)

text \<open>
  C4 as stated fails on the v3 detector: five daily rows with overlapping ranges, a
  second-to-last close of 100 and a price of 105.  \<open>detect_cme_gap_improved\<close> finds no
  pair of rows with a hole between them and answers \<open>NO_GAP\<close>, where the simple detector
  answers \<open>SHORT_TO_FILL\<close> at 100.
\<close>

theorem detect_cme_gap_improved_counterexample:
  "detect_cme_gap_improved
     [mk_bar 100 102 98 100 10, mk_bar 100 102 98 100 10, mk_bar 100 102 98 100 10,
      mk_bar 100 102 98 100 10, mk_bar 100 106 99 105 10] (Some 105) = (NO_GAP, nan, []) \<and>
   detect_cme_gap round_double
     [mk_bar 100 102 98 100 10, mk_bar 100 102 98 100 10, mk_bar 100 102 98 100 10,
      mk_bar 100 102 98 100 10, mk_bar 100 106 99 105 10] (Some 105) = (SHORT_TO_FILL, Some 100)"
  by code_simp

text \<open>
  Inside the rounding margin: at a close of 100 the rounded product is
  \<open>7072058789855231 / 2 ^ 46\<close>, printed \<open>100.49999999999999\<close>, so a price of 100.5, which is
  above the close by 0.5 percent and no more, is \<open>SHORT_TO_FILL\<close> with doubles and \<open>NO_GAP\<close>
  in exact arithmetic.
\<close>

lemma threshold_rounded_down:
  "detect_cme_gap round_double
     [mk_bar 99 101 98 100 10, mk_bar 100 101 99 (201 / 2) 10] (Some (201 / 2))
   = (SHORT_TO_FILL, Some 100)"
  by code_simp

lemma threshold_exact:
  "detect_cme_gap (\<lambda>x. x)
     [mk_bar 99 101 98 100 10, mk_bar 100 101 99 (201 / 2) 10] (Some (201 / 2))
   = (NO_GAP, nan)"
  by (simp add: detect_cme_gap_def iloc_def safe_float_def isnan_def THRESHOLD_PCT_def
      f_gt_def f_lt_def f_mul_def mk_bar_def Let_def)

subsection \<open>Relative strength index\<close>

lemma diff_from_scale:
  "diff_from (f_mul (Some c) x) (map (f_mul (Some c)) xs) = map (f_mul (Some c)) (diff_from x xs)"
  by (induction xs arbitrary: x) (auto simp: f_mul_def f_sub_def algebra_simps split: option.splits)

lemma diff_scale: "diff (map (f_mul (Some c)) xs) = map (f_mul (Some c)) (diff xs)"
  by (cases xs) (auto simp: diff_from_scale, simp add: f_mul_def)

lemma gain_scale: "c > 0 \<Longrightarrow> gain_of (f_mul (Some c) d) = c * gain_of d"
  by (auto simp: gain_of_def f_mul_def zero_less_mult_iff split: option.splits)

lemma loss_scale: "c > 0 \<Longrightarrow> loss_of (f_mul (Some c) d) = c * loss_of d"
  by (auto simp: loss_of_def f_mul_def mult_less_0_iff split: option.splits)

lemma gain_nonneg: "0 \<le> gain_of d"
  by (auto simp: gain_of_def split: option.splits)

lemma loss_nonneg: "0 \<le> loss_of d"
  by (auto simp: loss_of_def split: option.splits)

lemma sum_list_scale: "sum_list (map ((*) (c::real)) xs) = c * sum_list xs"
  by (induction xs) (auto simp: algebra_simps)

lemma rolling_scale:
  "rolling_mean_last w (map ((*) c) s) = f_mul (Some c) (rolling_mean_last w s)"
  by (auto simp: rolling_mean_last_def f_mul_def tail_rows_def sum_list_scale drop_map)

lemma rolling_nonneg:
  "(\<forall>x \<in> set s. 0 \<le> x) \<Longrightarrow> rolling_mean_last w s = Some m \<Longrightarrow> 0 \<le> m"
  by (auto simp: rolling_mean_last_def tail_rows_def split: if_splits
      intro!: divide_nonneg_nonneg sum_list_nonneg dest: in_set_dropD)

lemma rsi_value_range:
  assumes "\<And>g. gain = Some g \<Longrightarrow> 0 \<le> g" and "\<And>l. loss = Some l \<Longrightarrow> 0 \<le> l"
  shows "rsi_value gain loss = NpNaN \<or> (\<exists>r. rsi_value gain loss = Fin r \<and> 0 \<le> r \<and> r \<le> 100)"
proof (cases gain)
  case None
  then show ?thesis by (simp add: rsi_value_def of_py_def np_sub_def)
next
  case g: (Some g)
  show ?thesis
  proof (cases loss)
    case None
    then show ?thesis using g by (simp add: rsi_value_def of_py_def np_sub_def)
  next
    case l: (Some l)
    from assms g l have pos: "0 \<le> g" "0 \<le> l" by auto
    show ?thesis
    proof (cases "l = 0")
      case True
      then show ?thesis using g l pos
        by (auto simp: rsi_value_def of_py_def np_sub_def signed_inf_def)
    next
      case False
      define x where "x = g / l"
      from False pos have "0 \<le> x" by (simp add: x_def)
      then have d: "1 + x \<noteq> 0" "0 < 1 + x" by linarith+
      have "100 / (1 + x) \<le> 100" using d \<open>0 \<le> x\<close> by (simp add: pos_divide_le_eq)
      moreover have "0 \<le> 100 / (1 + x)" using d by simp
      ultimately have "rsi_value gain loss = Fin (100 - 100 / (1 + x)) \<and>
          0 \<le> 100 - 100 / (1 + x) \<and> 100 - 100 / (1 + x) \<le> 100"
        using g l False d by (simp add: rsi_value_def of_py_def np_sub_def x_def)
      then show ?thesis by blast
    qed
  qed
qed

lemma rsi_value_scale:
  "c > 0 \<Longrightarrow> rsi_value (f_mul (Some c) gain) (f_mul (Some c) loss) = rsi_value gain loss"
  by (cases gain; cases loss) (auto simp: rsi_value_def of_py_def f_mul_def zero_less_mult_iff)

lemma calculate_rsi_alt:
  "calculate_rsi df period =
     (if length df < period + 1 then NpNaN
      else rsi_value (rolling_mean_last period (map gain_of (diff (map Close df))))
                     (rolling_mean_last period (map loss_of (diff (map Close df)))))"
  by (simp add: calculate_rsi_def rsi_value_def safe_float_def Let_def)

lemma close_scale: "map Close (scale_prices c df) = map (f_mul (Some c)) (map Close df)"
  by (simp add: scale_prices_def comp_def)

lemma rsi_range:
  "calculate_rsi df period = NpNaN \<or>
      (\<exists>r. calculate_rsi df period = Fin r \<and> 0 \<le> r \<and> r \<le> 100)"
proof (cases "length df < period + 1")
  case True
  then show ?thesis by (simp add: calculate_rsi_alt)
next
  case False
  have "rsi_value (rolling_mean_last period (map gain_of (diff (map Close df))))
                     (rolling_mean_last period (map loss_of (diff (map Close df)))) = NpNaN \<or>
        (\<exists>r. rsi_value (rolling_mean_last period (map gain_of (diff (map Close df))))
                     (rolling_mean_last period (map loss_of (diff (map Close df)))) = Fin r \<and> 0 \<le> r \<and> r \<le> 100)"
  proof (rule rsi_value_range)
    fix g assume "rolling_mean_last period (map gain_of (diff (map Close df))) = Some g"
    then show "0 \<le> g" by (rule rolling_nonneg [rotated]) (simp add: gain_nonneg)
  next
    fix l assume "rolling_mean_last period (map loss_of (diff (map Close df))) = Some l"
    then show "0 \<le> l" by (rule rolling_nonneg [rotated]) (simp add: loss_nonneg)
  qed
  with False show ?thesis by (simp only: calculate_rsi_alt if_False)
qed

lemma rsi_scale:
  assumes c: "0 < c"
  shows "calculate_rsi (scale_prices c df) period = calculate_rsi df period"
proof -
  have g: "map gain_of (map (f_mul (Some c)) xs) = map ((*) c) (map gain_of xs)" for xs
    using c by (simp add: gain_scale)
  have l: "map loss_of (map (f_mul (Some c)) xs) = map ((*) c) (map loss_of xs)" for xs
    using c by (simp add: loss_scale)
  have len: "length (scale_prices c df) = length df"
    by (simp add: scale_prices_def)
  show ?thesis
    unfolding calculate_rsi_alt len close_scale diff_scale g l rolling_scale
    using c by (simp only: rsi_value_scale)
qed

text \<open>
  C7.  Whatever the series and the period, \<open>calculate_rsi\<close> is NaN or a number between 0
  and 100 (never an infinity), and multiplying every price by a constant \<open>c > 0\<close> leaves
  it unchanged.
\<close>

theorem rsi_bounds_and_scale_invariance:
  "(calculate_rsi df period = NpNaN \<or>
      (\<exists>r. calculate_rsi df period = Fin r \<and> 0 \<le> r \<and> r \<le> 100)) \<and>
   (0 < c \<longrightarrow> calculate_rsi (scale_prices c df) period = calculate_rsi df period)"
  using rsi_range [of df period] rsi_scale [of c df period] by blast

text \<open>Closes 1, 2, 3, 2, 5 with period 3: mean gain 4/3, mean loss 1/3, RSI 80, also at twice the prices.\<close>

theorem rsi_bounds_and_scale_invariance_witness:
  "(0 :: real) < 2 \<and>
   calculate_rsi (scale_prices 2 [mk_bar 1 1 1 1 1, mk_bar 2 2 2 2 1, mk_bar 3 3 3 3 1,
      mk_bar 2 2 2 2 1, mk_bar 5 5 5 5 1]) 3 = Fin 80 \<and>
   calculate_rsi [mk_bar 1 1 1 1 1, mk_bar 2 2 2 2 1, mk_bar 3 3 3 3 1,
      mk_bar 2 2 2 2 1, mk_bar 5 5 5 5 1] 3 = Fin 80"
proof -
  have v: "calculate_rsi [mk_bar 1 1 1 1 1, mk_bar 2 2 2 2 1, mk_bar 3 3 3 3 1,
      mk_bar 2 2 2 2 1, mk_bar 5 5 5 5 1] 3 = Fin 80"
    by (simp add: calculate_rsi_def mk_bar_def rolling_mean_last_def tail_rows_def gain_of_def
        loss_of_def f_sub_def of_py_def np_sub_def safe_float_def Let_def)
  show ?thesis
    using rsi_bounds_and_scale_invariance
      [of "[mk_bar 1 1 1 1 1, mk_bar 2 2 2 2 1, mk_bar 3 3 3 3 1,
            mk_bar 2 2 2 2 1, mk_bar 5 5 5 5 1]" 3 2] v
    by simp
qed

subsection \<open>Market structure\<close>

lemma detect_consolidation_short:
  "length df < 20 \<Longrightarrow> detect_consolidation df = (False, Fin 0, nan, nan)"
  by (simp add: detect_consolidation_def)

lemma detect_accumulation_short:
  "length df < 60 \<Longrightarrow> detect_accumulation df = (False, NONE, 0, [], [])"
  by (simp add: detect_accumulation_def)

lemma detect_distribution_short:
  "length df < 60 \<Longrightarrow> detect_distribution df = (False, NONE, 0, [], [])"
  by (simp add: detect_distribution_def)

lemma np_lt_5_8: "np_lt r (Fin 5) \<Longrightarrow> np_lt r (Fin 8)"
  by (cases r) auto

lemma tail_rows_tail_rows:
  "0 < k \<Longrightarrow> k \<le> m \<Longrightarrow> tail_rows k (tail_rows m xs) = tail_rows k xs"
  by (auto simp: tail_rows_def intro!: arg_cong [where f = "\<lambda>n. drop n xs"])

lemma consolidating_long:
  assumes "fst (detect_consolidation df)" and "60 \<le> length df"
  shows "np_lt (np_mul (np_div (np_sub (of_py (col_max (map High (tail_rows 20 (tail_rows 60 df)))))
                                      (of_py (col_min (map Low (tail_rows 20 (tail_rows 60 df))))))
                              (of_py (col_min (map Low (tail_rows 20 (tail_rows 60 df)))))) (Fin 100))
           (Fin 8)"
  using assms
  by (simp add: detect_consolidation_def Let_def tail_rows_tail_rows np_lt_5_8)

lemma detected_iff: 
  "fst (detect_accumulation df) \<longleftrightarrow> 2 \<le> score_of (detect_accumulation df)"
  "fst (detect_distribution df) \<longleftrightarrow> 2 \<le> score_of (detect_distribution df)"
  by (simp_all add: detect_accumulation_def detect_distribution_def score_of_def Let_def split_def)

lemma scores_in_consolidation:
  assumes "fst (detect_consolidation df)" and "60 \<le> length df"
  shows "\<exists>lz hz v bu be.
           score_of (detect_accumulation df) =
             (if lz then 1 else 0) + (if v then 1 else 0) + 3 / 2 + (if bu then 3 / 2 else 0) \<and>
           score_of (detect_distribution df) =
             (if hz then 1 else 0) + (if v then 1 else 0) + 3 / 2 + (if be then 3 / 2 else 0)"
proof -
  note fb = consolidating_long [OF assms]
  from assms(2) have len: "\<not> length df < 60" by simp
  show ?thesis
    apply (simp only: detect_accumulation_def detect_distribution_def len if_False Let_def
        score_of_def split_def fst_conv snd_conv fb if_True)
    apply blast
    done
qed

lemma phase_by_score:
  "fst (snd (detect_accumulation df)) =
     (if 3 \<le> score_of (detect_accumulation df) then STRONG_ACCUMULATION
      else if 2 \<le> score_of (detect_accumulation df) then POSSIBLE_ACCUMULATION else NONE)"
  "fst (snd (detect_distribution df)) =
     (if 3 \<le> score_of (detect_distribution df) then STRONG_DISTRIBUTION
      else if 2 \<le> score_of (detect_distribution df) then POSSIBLE_DISTRIBUTION else NONE)"
  by (simp_all add: detect_accumulation_def detect_distribution_def Let_def split_def score_of_def)

lemma phase_of_detected:
  "fst (detect_accumulation df) \<Longrightarrow> fst (snd (detect_accumulation df)) \<in> {STRONG_ACCUMULATION, POSSIBLE_ACCUMULATION}"
  "fst (detect_distribution df) \<Longrightarrow> fst (snd (detect_distribution df)) \<in> {STRONG_DISTRIBUTION, POSSIBLE_DISTRIBUTION}"
  by (simp_all add: phase_by_score detected_iff)

lemma dominating_score_is_detected:
  assumes "fst (detect_consolidation df)"
  shows "score_of (detect_accumulation df) > score_of (detect_distribution df) \<Longrightarrow> fst (detect_accumulation df)"
    and "score_of (detect_distribution df) > score_of (detect_accumulation df) \<Longrightarrow> fst (detect_distribution df)"
proof -
  have both: "(score_of (detect_accumulation df) > score_of (detect_distribution df) \<longrightarrow> 2 \<le> score_of (detect_accumulation df)) \<and>
     (score_of (detect_distribution df) > score_of (detect_accumulation df) \<longrightarrow> 2 \<le> score_of (detect_distribution df))"
  proof (cases "60 \<le> length df")
    case True
    from scores_in_consolidation [OF assms True] obtain lz hz v bu be where
      "score_of (detect_accumulation df) =
             (if lz then 1 else 0) + (if v then 1 else 0) + 3 / 2 + (if bu then 3 / 2 else 0)"
      "score_of (detect_distribution df) =
             (if hz then 1 else 0) + (if v then 1 else 0) + 3 / 2 + (if be then 3 / 2 else 0)"
      by blast
    then show ?thesis by (simp split: if_splits)
  next
    case False
    then show ?thesis
      by (simp add: detect_accumulation_short detect_distribution_short score_of_def)
  qed
  show "score_of (detect_accumulation df) > score_of (detect_distribution df) \<Longrightarrow> fst (detect_accumulation df)"
    using both by (simp add: detected_iff)
  show "score_of (detect_distribution df) > score_of (detect_accumulation df) \<Longrightarrow> fst (detect_distribution df)"
    using both by (simp add: detected_iff)
qed

lemma analyze_consolidating:
  assumes "fst (detect_consolidation df)"
  shows "primary_phase (analyze_market_structure df p) =
           (if fst (detect_accumulation df) \<and> score_of (detect_accumulation df) > score_of (detect_distribution df)
            then ACCUMULATION_IN_RANGE
            else if fst (detect_distribution df) \<and> score_of (detect_distribution df) > score_of (detect_accumulation df)
            then DISTRIBUTION_IN_RANGE else PURE_CONSOLIDATION)"
    and "confidence_adjustment (analyze_market_structure df p) =
           (if fst (detect_accumulation df) \<and> score_of (detect_accumulation df) > score_of (detect_distribution df)
            then 8 / 10
            else if fst (detect_distribution df) \<and> score_of (detect_distribution df) > score_of (detect_accumulation df)
            then 8 / 10 else 5 / 10)"
  using assms
  by (simp_all add: analyze_market_structure_def split_def score_of_def Let_def)

lemma phase_never_none:
  "primary_phase (analyze_market_structure df p) \<noteq> NONE"
  using phase_of_detected [of df]
  by (auto simp: analyze_market_structure_def split_def Let_def)

text \<open>
  C9.  On fewer than 20 daily rows the classifier answers \<open>TRENDING\<close> with the multiplier
  1: the consolidation detector needs 20 rows and the accumulation and distribution
  detectors need 60, and each answers not detected, with score 0, on fewer.
\<close>

theorem short_history_is_trending:
  assumes "length df_1d < 20"
  shows "primary_phase (analyze_market_structure df_1d last_price) = TRENDING \<and>
         confidence_adjustment (analyze_market_structure df_1d last_price) = 1 \<and>
         detect_consolidation df_1d = (False, Fin 0, nan, nan) \<and>
         detect_accumulation df_1d = (False, NONE, 0, [], []) \<and>
         detect_distribution df_1d = (False, NONE, 0, [], [])"
  using assms
  by (simp add: analyze_market_structure_def detect_consolidation_short
      detect_accumulation_short detect_distribution_short)

theorem short_history_is_trending_witness:
  "length [mk_bar 100 101 99 100 10, mk_bar 100 102 99 101 10] < 20 \<and>
   primary_phase (analyze_market_structure
      [mk_bar 100 101 99 100 10, mk_bar 100 102 99 101 10] (Some 101)) = TRENDING \<and>
   confidence_adjustment (analyze_market_structure
      [mk_bar 100 101 99 100 10, mk_bar 100 102 99 101 10] (Some 101)) = 1"
  using short_history_is_trending
    [of "[mk_bar 100 101 99 100 10, mk_bar 100 102 99 101 10]" "Some 101"]
  by simp

text \<open>
  C2.  When the series is classified as consolidating, a strictly greater accumulation
  score gives \<open>ACCUMULATION_IN_RANGE\<close> with multiplier 0.8, a strictly greater
  distribution score gives \<open>DISTRIBUTION_IN_RANGE\<close> with 0.8, and equal scores give
  \<open>PURE_CONSOLIDATION\<close> with 0.5.  (The source also asks that the greater score be at
  least 2; in a consolidation it always is, since both scores then hold the 1.5 points
  of the narrow range.)  For every input the phase is one of the eight labels.
\<close>

theorem phase_precedence_in_consolidation:
  "(fst (detect_consolidation df_1d) \<longrightarrow>
      (score_of (detect_accumulation df_1d) > score_of (detect_distribution df_1d) \<longrightarrow>
         primary_phase (analyze_market_structure df_1d last_price) = ACCUMULATION_IN_RANGE \<and>
         confidence_adjustment (analyze_market_structure df_1d last_price) = 8 / 10) \<and>
      (score_of (detect_distribution df_1d) > score_of (detect_accumulation df_1d) \<longrightarrow>
         primary_phase (analyze_market_structure df_1d last_price) = DISTRIBUTION_IN_RANGE \<and>
         confidence_adjustment (analyze_market_structure df_1d last_price) = 8 / 10) \<and>
      (score_of (detect_accumulation df_1d) = score_of (detect_distribution df_1d) \<longrightarrow>
         primary_phase (analyze_market_structure df_1d last_price) = PURE_CONSOLIDATION \<and>
         confidence_adjustment (analyze_market_structure df_1d last_price) = 5 / 10)) \<and>
   primary_phase (analyze_market_structure df_1d last_price) \<in>
     {PURE_CONSOLIDATION, ACCUMULATION_IN_RANGE, DISTRIBUTION_IN_RANGE, STRONG_ACCUMULATION,
      POSSIBLE_ACCUMULATION, STRONG_DISTRIBUTION, POSSIBLE_DISTRIBUTION, TRENDING}"
proof
  show "fst (detect_consolidation df_1d) \<longrightarrow>
      (score_of (detect_accumulation df_1d) > score_of (detect_distribution df_1d) \<longrightarrow>
         primary_phase (analyze_market_structure df_1d last_price) = ACCUMULATION_IN_RANGE \<and>
         confidence_adjustment (analyze_market_structure df_1d last_price) = 8 / 10) \<and>
      (score_of (detect_distribution df_1d) > score_of (detect_accumulation df_1d) \<longrightarrow>
         primary_phase (analyze_market_structure df_1d last_price) = DISTRIBUTION_IN_RANGE \<and>
         confidence_adjustment (analyze_market_structure df_1d last_price) = 8 / 10) \<and>
      (score_of (detect_accumulation df_1d) = score_of (detect_distribution df_1d) \<longrightarrow>
         primary_phase (analyze_market_structure df_1d last_price) = PURE_CONSOLIDATION \<and>
         confidence_adjustment (analyze_market_structure df_1d last_price) = 5 / 10)"
  proof
    assume c: "fst (detect_consolidation df_1d)"
    show "(score_of (detect_accumulation df_1d) > score_of (detect_distribution df_1d) \<longrightarrow>
         primary_phase (analyze_market_structure df_1d last_price) = ACCUMULATION_IN_RANGE \<and>
         confidence_adjustment (analyze_market_structure df_1d last_price) = 8 / 10) \<and>
      (score_of (detect_distribution df_1d) > score_of (detect_accumulation df_1d) \<longrightarrow>
         primary_phase (analyze_market_structure df_1d last_price) = DISTRIBUTION_IN_RANGE \<and>
         confidence_adjustment (analyze_market_structure df_1d last_price) = 8 / 10) \<and>
      (score_of (detect_accumulation df_1d) = score_of (detect_distribution df_1d) \<longrightarrow>
         primary_phase (analyze_market_structure df_1d last_price) = PURE_CONSOLIDATION \<and>
         confidence_adjustment (analyze_market_structure df_1d last_price) = 5 / 10)"
      using dominating_score_is_detected [OF c]
      by (auto simp: analyze_consolidating [OF c])
  qed
  have "primary_phase (analyze_market_structure df_1d last_price) \<noteq> NONE"
    by (rule phase_never_none)
  then show "primary_phase (analyze_market_structure df_1d last_price) \<in>
     {PURE_CONSOLIDATION, ACCUMULATION_IN_RANGE, DISTRIBUTION_IN_RANGE, STRONG_ACCUMULATION,
      POSSIBLE_ACCUMULATION, STRONG_DISTRIBUTION, POSSIBLE_DISTRIBUTION, TRENDING}"
    by (cases "primary_phase (analyze_market_structure df_1d last_price)") simp_all
qed

text \<open>
  The three cases on the example series: a fall before the range (scores 2.5 against
  1.5), a rise before it (1.5 against 2.5), and twenty days alone (0 against 0).
\<close>

theorem phase_precedence_in_consolidation_witness:
  "fst (detect_consolidation falling_then_flat) \<and>
   score_of (detect_accumulation falling_then_flat) > score_of (detect_distribution falling_then_flat) \<and>
   primary_phase (analyze_market_structure falling_then_flat (Some 100)) = ACCUMULATION_IN_RANGE \<and>
   confidence_adjustment (analyze_market_structure falling_then_flat (Some 100)) = 8 / 10 \<and>
   fst (detect_consolidation rising_then_flat) \<and>
   score_of (detect_distribution rising_then_flat) > score_of (detect_accumulation rising_then_flat) \<and>
   primary_phase (analyze_market_structure rising_then_flat (Some 100)) = DISTRIBUTION_IN_RANGE \<and>
   confidence_adjustment (analyze_market_structure rising_then_flat (Some 100)) = 8 / 10 \<and>
   fst (detect_consolidation flat_month) \<and>
   score_of (detect_accumulation flat_month) = score_of (detect_distribution flat_month) \<and>
   primary_phase (analyze_market_structure flat_month (Some 100)) = PURE_CONSOLIDATION \<and>
   confidence_adjustment (analyze_market_structure flat_month (Some 100)) = 5 / 10"
proof -
  have f: "fst (detect_consolidation falling_then_flat)"
    "score_of (detect_accumulation falling_then_flat) = 5 / 2"
    "score_of (detect_distribution falling_then_flat) = 3 / 2"
    by code_simp+
  have r: "fst (detect_consolidation rising_then_flat)"
    "score_of (detect_accumulation rising_then_flat) = 3 / 2"
    "score_of (detect_distribution rising_then_flat) = 5 / 2"
    by code_simp+
  have m: "fst (detect_consolidation flat_month)"
    "score_of (detect_accumulation flat_month) = 0"
    "score_of (detect_distribution flat_month) = 0"
    by code_simp+
  show ?thesis
    using phase_precedence_in_consolidation [of falling_then_flat "Some 100"]
      phase_precedence_in_consolidation [of rising_then_flat "Some 100"]
      phase_precedence_in_consolidation [of flat_month "Some 100"] f r m
    by simp
qed

subsection \<open>Comprehensive gap scan\<close>

lemma unfilled_gap_age: "unfilled_gap_at rs i = Some g \<Longrightarrow> age_days g = length rs - i"
  by (auto simp: unfilled_gap_at_def Let_def split: option.splits if_splits)

lemma set_found:
  "set (List.map_filter (unfilled_gap_at rs) [1..<length rs]) =
     {g. \<exists>i. 1 \<le> i \<and> i < length rs \<and> unfilled_gap_at rs i = Some g}"
  by (force simp: List.map_filter_def)

lemma set_drop_nth: "set (drop i rs) = {rs ! j | j. i \<le> j \<and> j < length rs}"
proof -
  have "set (drop i rs) = {drop i rs ! k | k. k < length (drop i rs)}"
    by (simp add: set_conv_nth)
  also have "\<dots> = {rs ! j | j. i \<le> j \<and> j < length rs}"
  proof (intro set_eqI iffI; clarsimp)
    fix k assume "k < length rs - i"
    then show "\<exists>j. rs ! (i + k) = rs ! j \<and> i \<le> j \<and> j < length rs"
      by (intro exI [of _ "i + k"]) auto
  next
    fix j assume "i \<le> j" "j < length rs"
    then show "\<exists>k. rs ! j = rs ! (i + k) \<and> k < length rs - i"
      by (intro exI [of _ "j - i"]) auto
  qed
  finally show ?thesis .
qed

lemma any_row_drop:
  "any_row col hit (drop i rs) \<longleftrightarrow> (\<exists>j v. i \<le> j \<and> j < length rs \<and> col (rs ! j) = Some v \<and> hit v)"
  unfolding any_row_def list_ex_iff set_drop_nth safe_float_def
  by (auto split: option.splits) blast+

lemma found_by_age:
  assumes "1 \<le> i" and "i < length rs"
  shows "(\<exists>g \<in> set (List.map_filter (unfilled_gap_at rs) [1..<length rs]). age_days g = length rs - i \<and> P g)
         \<longleftrightarrow> (\<exists>g. unfilled_gap_at rs i = Some g \<and> P g)"
proof
  assume "\<exists>g \<in> set (List.map_filter (unfilled_gap_at rs) [1..<length rs]). age_days g = length rs - i \<and> P g"
  then obtain g where "g \<in> set (List.map_filter (unfilled_gap_at rs) [1..<length rs])"
    and a: "age_days g = length rs - i" and p: "P g"
    by blast
  then obtain j where j: "1 \<le> j" "j < length rs" "unfilled_gap_at rs j = Some g"
    unfolding set_found by blast
  from unfilled_gap_age [OF j(3)] a have "length rs - j = length rs - i" by simp
  with j(2) assms(2) have "j = i" by arith
  with j p show "\<exists>g. unfilled_gap_at rs i = Some g \<and> P g" by blast
next
  assume "\<exists>g. unfilled_gap_at rs i = Some g \<and> P g"
  then obtain g where g: "unfilled_gap_at rs i = Some g" "P g" by blast
  with assms have "g \<in> set (List.map_filter (unfilled_gap_at rs) [1..<length rs])"
    unfolding set_found by blast
  with g unfilled_gap_age [OF g(1)] show
    "\<exists>g \<in> set (List.map_filter (unfilled_gap_at rs) [1..<length rs]). age_days g = length rs - i \<and> P g"
    by blast
qed

lemma lists_of_scan:
  assumes "3 \<le> length df"
    and "find_all_gaps_comprehensive df price lb = (gaps_above, gaps_below)"
  shows "set gaps_above = {g \<in> set (List.map_filter (unfilled_gap_at (if length df \<ge> lb then tail_rows lb df else df))
                        [1..<length (if length df \<ge> lb then tail_rows lb df else df)]). f_gt (Some (level g)) price}"
    and "set gaps_below = {g \<in> set (List.map_filter (unfilled_gap_at (if length df \<ge> lb then tail_rows lb df else df))
                        [1..<length (if length df \<ge> lb then tail_rows lb df else df)]). f_lt (Some (level g)) price}"
    and "sorted (map level gaps_above)" and "sorted (rev (map level gaps_below))"
proof -
  from assms(1) have ne: "df \<noteq> []" "\<not> length df < 3" by auto
  have excl: "f_lt (Some x) price \<Longrightarrow> \<not> f_gt (Some x) price" for x
    by (auto simp: f_gt_def f_lt_def split: option.splits)
  from assms(2) ne show "set gaps_above = {g \<in> set (List.map_filter (unfilled_gap_at (if length df \<ge> lb then tail_rows lb df else df))
                        [1..<length (if length df \<ge> lb then tail_rows lb df else df)]). f_gt (Some (level g)) price}"
    by (auto simp: find_all_gaps_comprehensive_def Let_def)
  from assms(2) ne show "set gaps_below = {g \<in> set (List.map_filter (unfilled_gap_at (if length df \<ge> lb then tail_rows lb df else df))
                        [1..<length (if length df \<ge> lb then tail_rows lb df else df)]). f_lt (Some (level g)) price}"
    by (auto simp: find_all_gaps_comprehensive_def Let_def excl)
  from assms(2) ne show "sorted (map level gaps_above)"
    by (auto simp: find_all_gaps_comprehensive_def Let_def)
  from assms(2) ne show "sorted (rev (map level gaps_below))"
    by (auto simp: find_all_gaps_comprehensive_def Let_def rev_map)
qed

text \<open>
  C10.  Every gap in \<open>gaps_above\<close> has its level strictly above the price and every gap
  in \<open>gaps_below\<close> strictly below it, so a gap whose level is the price is in neither
  list; \<open>gaps_above\<close> is sorted by ascending level and \<open>gaps_below\<close> by descending level,
  and the first gap of each list is the nearest to the price on its side.
\<close>

theorem gaps_sides_strict_and_sorted:
  assumes "find_all_gaps_comprehensive df_1d current_price lookback_days = (gaps_above, gaps_below)"
  shows "(\<forall>g \<in> set gaps_above. f_gt (Some (level g)) current_price) \<and>
         (\<forall>g \<in> set gaps_below. f_lt (Some (level g)) current_price) \<and>
         (\<forall>g \<in> set gaps_above \<union> set gaps_below. Some (level g) \<noteq> current_price) \<and>
         sorted (map level gaps_above) \<and> sorted (rev (map level gaps_below)) \<and>
         (\<forall>g \<in> set gaps_above. level (hd gaps_above) \<le> level g) \<and>
         (\<forall>g \<in> set gaps_below. level g \<le> level (hd gaps_below))"
proof (cases "3 \<le> length df_1d")
  case False
  with assms have "gaps_above = []" "gaps_below = []"
    by (auto simp: find_all_gaps_comprehensive_def)
  then show ?thesis by simp
next
  case True
  note l = lists_of_scan [OF True assms]
  have a: "\<forall>g \<in> set gaps_above. f_gt (Some (level g)) current_price"
    unfolding l(1) by simp
  have b: "\<forall>g \<in> set gaps_below. f_lt (Some (level g)) current_price"
    unfolding l(2) by simp
  have ne: "\<forall>g \<in> set gaps_above \<union> set gaps_below. Some (level g) \<noteq> current_price"
    using a b by (auto simp: f_gt_def f_lt_def)
  have ha: "\<forall>g \<in> set gaps_above. level (hd gaps_above) \<le> level g"
    using l(3) by (cases gaps_above) auto
  have "sorted (rev (map level gaps_below))" by (rule l(4))
  then have hb: "\<forall>g \<in> set gaps_below. level g \<le> level (hd gaps_below)"
    by (cases gaps_below) (auto simp: sorted_append)
  from a b ne l(3) l(4) ha hb show ?thesis by blast
qed

text \<open>
  C6, as amended.  Take a daily series of at least three rows, the rows \<open>df_recent\<close>
  that the scan reads (the last \<open>lookback_days\<close> rows), and a pair of rows \<open>i - 1\<close>, \<open>i\<close>
  of it whose six values are numeric.  If row \<open>i\<close> has its low above the high of row
  \<open>i - 1\<close>, the lists hold the gap of this pair (age \<open>len - i\<close>, type \<open>GAP_UP\<close>, bottom the
  earlier high, top the later low) exactly when no row from \<open>i\<close> on has a low at or
  under the earlier high, the earlier high is not zero and the middle of the hole is
  not the price.  The mirror holds for a pair whose later high is under the earlier
  low, with a later high at or over the earlier low as the fill.
\<close>

theorem gap_reported_iff_unfilled:
  assumes len: "3 \<le> length df_1d"
    and recent: "df_recent = (if lookback_days \<le> length df_1d then tail_rows lookback_days df_1d else df_1d)"
    and i: "1 \<le> i" "i < length df_recent"
    and prev: "Close (df_recent ! (i - 1)) = Some prev_close" "High (df_recent ! (i - 1)) = Some prev_high"
      "Low (df_recent ! (i - 1)) = Some prev_low"
    and cur: "Open (df_recent ! i) = Some curr_open" "High (df_recent ! i) = Some curr_high"
      "Low (df_recent ! i) = Some curr_low"
    and scan: "find_all_gaps_comprehensive df_1d current_price lookback_days = (gaps_above, gaps_below)"
  shows "(curr_low > prev_high \<longrightarrow>
            ((\<exists>g \<in> set gaps_above \<union> set gaps_below.
                 age_days g = length df_recent - i \<and> gtype g = GAP_UP \<and>
                 bottom g = prev_high \<and> top g = curr_low)
             \<longleftrightarrow>
             (\<not> (\<exists>j v. i \<le> j \<and> j < length df_recent \<and> Low (df_recent ! j) = Some v \<and> v \<le> prev_high) \<and>
              prev_high \<noteq> 0 \<and>
              (f_gt (Some ((prev_high + curr_low) / 2)) current_price \<or>
               f_lt (Some ((prev_high + curr_low) / 2)) current_price)))) \<and>
         (\<not> curr_low > prev_high \<and> curr_high < prev_low \<longrightarrow>
            ((\<exists>g \<in> set gaps_above \<union> set gaps_below.
                 age_days g = length df_recent - i \<and> gtype g = GAP_DOWN \<and>
                 bottom g = curr_high \<and> top g = prev_low)
             \<longleftrightarrow>
             (\<not> (\<exists>j v. i \<le> j \<and> j < length df_recent \<and> High (df_recent ! j) = Some v \<and> v \<ge> prev_low) \<and>
              curr_high \<noteq> 0 \<and>
              (f_gt (Some ((curr_high + prev_low) / 2)) current_price \<or>
               f_lt (Some ((curr_high + prev_low) / 2)) current_price))))"
proof -
  note l = lists_of_scan [OF len scan, folded recent]
  have members: "(\<exists>g \<in> set gaps_above \<union> set gaps_below. age_days g = length df_recent - i \<and> Q g)
      \<longleftrightarrow> (\<exists>g. unfilled_gap_at df_recent i = Some g \<and> Q g \<and>
            (f_gt (Some (level g)) current_price \<or> f_lt (Some (level g)) current_price))" for Q
  proof -
    have "(\<exists>g \<in> set gaps_above \<union> set gaps_below. age_days g = length df_recent - i \<and> Q g)
      \<longleftrightarrow> (\<exists>g \<in> set (List.map_filter (unfilled_gap_at df_recent) [1..<length df_recent]).
             age_days g = length df_recent - i \<and>
             (Q g \<and> (f_gt (Some (level g)) current_price \<or> f_lt (Some (level g)) current_price)))"
      unfolding l(1) l(2) by blast
    also have "\<dots> \<longleftrightarrow> (\<exists>g. unfilled_gap_at df_recent i = Some g \<and>
             (Q g \<and> (f_gt (Some (level g)) current_price \<or> f_lt (Some (level g)) current_price)))"
      by (rule found_by_age [OF i])
    finally show ?thesis by simp
  qed
  have up: "curr_low > prev_high \<Longrightarrow>
      unfilled_gap_at df_recent i =
        (if \<not> (\<exists>j v. i \<le> j \<and> j < length df_recent \<and> Low (df_recent ! j) = Some v \<and> v \<le> prev_high) \<and>
            prev_high \<noteq> 0
         then Some \<lparr>level = (prev_high + curr_low) / 2, bottom = prev_high, top = curr_low, gtype = GAP_UP,
                    age_days = length df_recent - i,
                    size_pct = ((curr_low - prev_high) / prev_high) * 100,
                    strength = (if ((curr_low - prev_high) / prev_high) * 100 > 2 then STRONG
                                else if ((curr_low - prev_high) / prev_high) * 100 > 1 then MEDIUM else WEAK)\<rparr>
         else None)"
    using prev cur
    by (simp add: unfilled_gap_at_def safe_float_def Let_def any_row_drop)
  have down: "\<not> curr_low > prev_high \<Longrightarrow> curr_high < prev_low \<Longrightarrow>
      unfilled_gap_at df_recent i =
        (if \<not> (\<exists>j v. i \<le> j \<and> j < length df_recent \<and> High (df_recent ! j) = Some v \<and> v \<ge> prev_low) \<and>
            curr_high \<noteq> 0
         then Some \<lparr>level = (curr_high + prev_low) / 2, bottom = curr_high, top = prev_low, gtype = GAP_DOWN,
                    age_days = length df_recent - i,
                    size_pct = ((prev_low - curr_high) / curr_high) * 100,
                    strength = (if ((prev_low - curr_high) / curr_high) * 100 > 2 then STRONG
                                else if ((prev_low - curr_high) / curr_high) * 100 > 1 then MEDIUM else WEAK)\<rparr>
         else None)"
    using prev cur
    by (simp add: unfilled_gap_at_def safe_float_def Let_def any_row_drop)
  show ?thesis
  proof (intro conjI impI)
    assume g: "curr_low > prev_high"
    show "(\<exists>g \<in> set gaps_above \<union> set gaps_below.
                 age_days g = length df_recent - i \<and> gtype g = GAP_UP \<and>
                 bottom g = prev_high \<and> top g = curr_low)
             \<longleftrightarrow>
             (\<not> (\<exists>j v. i \<le> j \<and> j < length df_recent \<and> Low (df_recent ! j) = Some v \<and> v \<le> prev_high) \<and>
              prev_high \<noteq> 0 \<and>
              (f_gt (Some ((prev_high + curr_low) / 2)) current_price \<or>
               f_lt (Some ((prev_high + curr_low) / 2)) current_price))"
      unfolding members [of "\<lambda>g. gtype g = GAP_UP \<and> bottom g = prev_high \<and> top g = curr_low"] up [OF g]
      by (auto split: if_splits)
  next
    assume "\<not> curr_low > prev_high \<and> curr_high < prev_low"
    then have g: "\<not> curr_low > prev_high" "curr_high < prev_low" by simp_all
    show "(\<exists>g \<in> set gaps_above \<union> set gaps_below.
                 age_days g = length df_recent - i \<and> gtype g = GAP_DOWN \<and>
                 bottom g = curr_high \<and> top g = prev_low)
             \<longleftrightarrow>
             (\<not> (\<exists>j v. i \<le> j \<and> j < length df_recent \<and> High (df_recent ! j) = Some v \<and> v \<ge> prev_low) \<and>
              curr_high \<noteq> 0 \<and>
              (f_gt (Some ((curr_high + prev_low) / 2)) current_price \<or>
               f_lt (Some ((curr_high + prev_low) / 2)) current_price))"
      unfolding members [of "\<lambda>g. gtype g = GAP_DOWN \<and> bottom g = curr_high \<and> top g = prev_low"] down [OF g]
      by (auto split: if_splits)
  qed
qed

lemma stairs_scan_107:
  "find_all_gaps_comprehensive stairs (Some 107) 120 =
     ([stairs_gap 108 110 1], [stairs_gap 104 106 2, stairs_gap 100 102 3])"
  by code_simp

lemma stairs_scan_105:
  "find_all_gaps_comprehensive stairs (Some 105) 120 =
     ([stairs_gap 108 110 1], [stairs_gap 100 102 3])"
  by code_simp

text \<open>The stairs at price 107: one gap above, two below, the nearer one first.\<close>

theorem gaps_sides_strict_and_sorted_witness:
  "find_all_gaps_comprehensive stairs (Some 107) 120 =
     ([stairs_gap 108 110 1], [stairs_gap 104 106 2, stairs_gap 100 102 3]) \<and>
   f_gt (Some (level (stairs_gap 108 110 1))) (Some 107) \<and>
   f_lt (Some (level (stairs_gap 104 106 2))) (Some 107) \<and>
   f_lt (Some (level (stairs_gap 100 102 3))) (Some 107) \<and>
   sorted (rev (map level [stairs_gap 104 106 2, stairs_gap 100 102 3]))"
  using gaps_sides_strict_and_sorted [OF stairs_scan_107] stairs_scan_107
  by simp

text \<open>The hole \<open>[104, 106]\<close> of the stairs, at price 107: never retraced, and reported.\<close>

theorem gap_reported_iff_unfilled_witness:
  "find_all_gaps_comprehensive stairs (Some 107) 120 =
     ([stairs_gap 108 110 1], [stairs_gap 104 106 2, stairs_gap 100 102 3]) \<and>
   (\<exists>g \<in> set [stairs_gap 108 110 1] \<union> set [stairs_gap 104 106 2, stairs_gap 100 102 3].
       age_days g = length stairs - 2 \<and> gtype g = GAP_UP \<and> bottom g = 104 \<and> top g = 106) \<and>
   \<not> (\<exists>j v. 2 \<le> j \<and> j < length stairs \<and> Low (stairs ! j) = Some v \<and> v \<le> 104)"
proof -
  have g: "\<exists>g \<in> set [stairs_gap 108 110 1] \<union> set [stairs_gap 104 106 2, stairs_gap 100 102 3].
       age_days g = length stairs - 2 \<and> gtype g = GAP_UP \<and> bottom g = 104 \<and> top g = 106"
    by (simp add: stairs_gap_def stairs_def)
  have "(106 :: real) > 104 \<longrightarrow>
     ((\<exists>g \<in> set [stairs_gap 108 110 1] \<union> set [stairs_gap 104 106 2, stairs_gap 100 102 3].
       age_days g = length stairs - 2 \<and> gtype g = GAP_UP \<and> bottom g = 104 \<and> top g = 106)
      \<longleftrightarrow>
      (\<not> (\<exists>j v. 2 \<le> j \<and> j < length stairs \<and> Low (stairs ! j) = Some v \<and> v \<le> 104) \<and>
       (104 :: real) \<noteq> 0 \<and>
       (f_gt (Some ((104 + 106) / 2)) (Some 107) \<or> f_lt (Some ((104 + 106) / 2)) (Some 107))))"
    using gap_reported_iff_unfilled
      [of stairs stairs 120 2 103 104 102 107 108 106 "Some 107"
          "[stairs_gap 108 110 1]" "[stairs_gap 104 106 2, stairs_gap 100 102 3]"]
      stairs_scan_107
    by (simp add: stairs_def mk_bar_def)
  with g stairs_scan_107 show ?thesis by simp
qed

text \<open>
  C6 as stated fails: at price 105, the middle of the hole \<open>[104, 106]\<close>, no later low
  has come back to 104 and yet neither list holds that gap.
\<close>

theorem gap_at_price_counterexample:
  "High (stairs ! 1) = Some 104 \<and> Low (stairs ! 2) = Some 106 \<and>
   \<not> any_row Low (\<lambda>check_low. check_low \<le> 104) (drop 2 stairs) \<and>
   find_all_gaps_comprehensive stairs (Some 105) 120 =
     ([stairs_gap 108 110 1], [stairs_gap 100 102 3]) \<and>
   bottom (stairs_gap 108 110 1) \<noteq> 104 \<and> bottom (stairs_gap 100 102 3) \<noteq> 104"
proof -
  have "High (stairs ! 1) = Some 104" "Low (stairs ! 2) = Some 106"
    "\<not> any_row Low (\<lambda>check_low. check_low \<le> 104) (drop 2 stairs)"
    by (simp_all add: stairs_def mk_bar_def any_row_def safe_float_def)
  moreover have "bottom (stairs_gap 108 110 1) \<noteq> 104" "bottom (stairs_gap 100 102 3) \<noteq> 104"
    by (simp_all add: stairs_gap_def)
  ultimately show ?thesis using stairs_scan_105 by simp
qed

subsection \<open>The analysis of one instrument\<close>

lemma adjustment_positive:
  "0 < confidence_adjustment (analyze_market_structure df p)"
  by (simp add: analyze_market_structure_def split_def Let_def)

lemma short_to_fill_confidence:
  "1 / 2 \<le> confidence (short_to_fill PP R1 S1 last_price atr high_volume gap_level ind gaps_below R2_hist S2_hist)"
  by (simp add: short_to_fill_def Let_def split_def)

lemma long_to_fill_confidence:
  "1 / 2 \<le> confidence (long_to_fill PP R1 S1 last_price atr high_volume gap_level ind gaps_above R2_hist S2_hist)"
  by (simp add: long_to_fill_def Let_def split_def)

lemma no_gap_confidence:
  "3 / 2 \<le> confidence (short_gap_historico PP S1 last_price atr ind gaps_above gaps_below S2_hist)"
  "3 / 2 \<le> confidence (long_gap_historico PP R1 last_price atr ind gaps_above gaps_below R2_hist)"
  "3 / 2 \<le> confidence (short_resistencia PP S1 last_price atr high_volume ind R2_hist S2_hist)"
  "3 / 2 \<le> confidence (long_soporte PP R1 last_price atr high_volume ind R2_hist S2_hist)"
  by (simp_all add: short_gap_historico_def long_gap_historico_def short_resistencia_def
      long_soporte_def Let_def split_def)

lemma decide_confidence:
  assumes "decide PP R1 S1 last_price atr high_volume gap_signal gap_level ind
             gaps_above gaps_below R2_hist S2_hist = Inr p"
  shows "0 \<le> confidence p"
proof -
  note b = short_to_fill_confidence [of PP R1 S1 last_price atr high_volume gap_level ind gaps_below R2_hist S2_hist]
    long_to_fill_confidence [of PP R1 S1 last_price atr high_volume gap_level ind gaps_above R2_hist S2_hist]
    no_gap_confidence(1) [of PP S1 last_price atr ind gaps_above gaps_below S2_hist]
    no_gap_confidence(2) [of PP R1 last_price atr ind gaps_above gaps_below R2_hist]
    no_gap_confidence(3) [of PP S1 last_price atr high_volume ind R2_hist S2_hist]
    no_gap_confidence(4) [of PP R1 last_price atr high_volume ind R2_hist S2_hist]
  from assms b show ?thesis
    by (auto simp: decide_def Let_def initial_plan_def split: if_splits gap_signal.splits)
qed

lemma finish_confidence:
  assumes "0 \<le> confidence p" and "0 < confidence_adjustment ms"
  shows "0 \<le> confidence_pct (finish p atr last_price ms)"
    and "confidence_pct (finish p atr last_price ms) \<le> 100"
    and "confidence_pct (finish p atr last_price ms) =
           min 100 (100 * confidence (finish p atr last_price ms) / max_score)"
    and "confidence (finish p atr last_price ms) =
           confidence_before_structure (finish p atr last_price ms) * confidence_adjustment ms"
    and "market_phase (finish p atr last_price ms) = ms"
    and "0 \<le> confidence_before_structure (finish p atr last_price ms)"
  using assms
  by (simp_all add: finish_def split_def Let_def max_score_def mult.commute)

lemma analyze_pre_ny_result:
  assumes "analyze_pre_ny symbol download_5m download_4h download_1d ind = Inr s"
  shows "\<exists>p atr last_price df. s = finish p atr last_price (analyze_market_structure df (Some last_price)) \<and>
           0 \<le> confidence p"
  using assms
  by (auto simp: analyze_pre_ny_def Let_def split_def
      split: download.splits if_splits option.splits sum.splits dest: decide_confidence)

lemma v3_percentage_in_range:
  assumes "analyze_pre_ny symbol download_5m download_4h download_1d ind = Inr s"
  shows "0 \<le> confidence_pct s \<and> confidence_pct s \<le> 100 \<and>
         confidence_pct s = min 100 (100 * confidence s / max_score) \<and>
         confidence s = confidence_before_structure s * confidence_adjustment (market_phase s) \<and>
         0 \<le> confidence_before_structure s"
proof -
  from analyze_pre_ny_result [OF assms] obtain p atr last_price df where
    s: "s = finish p atr last_price (analyze_market_structure df (Some last_price))"
    and c: "0 \<le> confidence p" by blast
  note f = finish_confidence [OF c adjustment_positive [of df "Some last_price"], of atr last_price]
  show ?thesis
    unfolding s using f by (simp only: simp_thms)
qed

lemma indicator_score_v1_nonneg:
  "0 \<le> short_indicator_score_v1 ind" "0 \<le> long_indicator_score_v1 ind"
  by (simp_all add: short_indicator_score_v1_def long_indicator_score_v1_def Let_def)

lemma v1_branch_confidence:
  "0 \<le> confidence (short_to_fill_v1 PP R1 S1 last_price atr high_volume gap_level ind gaps_below R2_hist S2_hist)"
  "0 \<le> confidence (long_to_fill_v1 PP R1 S1 last_price atr high_volume gap_level ind gaps_above' R2_hist S2_hist)"
  "0 \<le> confidence (short_resistencia_v1 PP S1 last_price atr high_volume ind R2_hist S2_hist)"
  "0 \<le> confidence (long_soporte_v1 PP R1 last_price atr high_volume ind R2_hist S2_hist)"
  using indicator_score_v1_nonneg [of ind]
  by (simp_all add: short_to_fill_v1_def long_to_fill_v1_def short_resistencia_v1_def
      long_soporte_v1_def Let_def split_def)

lemma decide_v1_confidence:
  assumes "decide_v1 PP R1 S1 last_price atr high_volume gap_signal gap_level ind
             gaps_above gaps_below R2_hist S2_hist = Inr p"
  shows "0 \<le> confidence p"
proof -
  note b = v1_branch_confidence(1) [of PP R1 S1 last_price atr high_volume gap_level ind gaps_below R2_hist S2_hist]
    v1_branch_confidence(2) [of PP R1 S1 last_price atr high_volume gap_level ind gaps_above R2_hist S2_hist]
    v1_branch_confidence(3) [of PP S1 last_price atr high_volume ind R2_hist S2_hist]
    v1_branch_confidence(4) [of PP R1 last_price atr high_volume ind R2_hist S2_hist]
  from assms b show ?thesis
    by (auto simp: decide_v1_def Let_def initial_plan_v1_def split: if_splits gap_signal.splits)
qed

lemma finish_v1_confidence:
  assumes "0 \<le> confidence p"
  shows "0 \<le> snd (finish_v1 p atr last_price)" and "snd (finish_v1 p atr last_price) \<le> 100"
    and "snd (finish_v1 p atr last_price) = min 100 (100 * confidence (fst (finish_v1 p atr last_price)) / max_score_v1)"
  using assms
  by (simp_all add: finish_v1_def split_def Let_def max_score_v1_def)

lemma finish_v1_keeps_confidence: "confidence (fst (finish_v1 p atr last_price)) = confidence p"
  by (simp add: finish_v1_def split_def Let_def)

text \<open>
  C3.  Whenever the analysis of the v3 script emits a trade signal, its percentage is
  \<open>min(100, 100 * confidence / 6)\<close> and lies between 0 and 100.  The confidence is the
  raw sum, penalties included, times the multiplier of the market phase, applied once;
  the raw sum is never negative, since a gap contributes 2 points and the penalties
  take at most 1.5 of them away.  The decision logic of the first script, with the
  ceiling 5 and neither penalties nor multiplier, keeps its percentage between 0 and
  100 as well.
\<close>

theorem confidence_pct_bounds:
  "(analyze_pre_ny symbol download_5m download_4h download_1d ind = Inr s \<longrightarrow>
      0 \<le> confidence_pct s \<and> confidence_pct s \<le> 100 \<and>
      confidence_pct s = min 100 (100 * confidence s / max_score) \<and>
      confidence s = confidence_before_structure s * confidence_adjustment (market_phase s) \<and>
      0 \<le> confidence_before_structure s) \<and>
   (decide_v1 PP R1 S1 last_price atr high_volume gap_signal gap_level ind1
      gaps_above gaps_below R2_hist S2_hist = Inr p \<longrightarrow>
      0 \<le> snd (finish_v1 p atr last_price) \<and> snd (finish_v1 p atr last_price) \<le> 100 \<and>
      snd (finish_v1 p atr last_price) = min 100 (100 * confidence p / max_score_v1))"
proof -
  have v3: "analyze_pre_ny symbol download_5m download_4h download_1d ind = Inr s \<longrightarrow>
      0 \<le> confidence_pct s \<and> confidence_pct s \<le> 100 \<and>
      confidence_pct s = min 100 (100 * confidence s / max_score) \<and>
      confidence s = confidence_before_structure s * confidence_adjustment (market_phase s) \<and>
      0 \<le> confidence_before_structure s"
    using v3_percentage_in_range [of symbol download_5m download_4h download_1d ind s] by blast
  have v1: "decide_v1 PP R1 S1 last_price atr high_volume gap_signal gap_level ind1
      gaps_above gaps_below R2_hist S2_hist = Inr p \<longrightarrow>
      0 \<le> snd (finish_v1 p atr last_price) \<and> snd (finish_v1 p atr last_price) \<le> 100 \<and>
      snd (finish_v1 p atr last_price) = min 100 (100 * confidence p / max_score_v1)"
  proof
    assume "decide_v1 PP R1 S1 last_price atr high_volume gap_signal gap_level ind1
      gaps_above gaps_below R2_hist S2_hist = Inr p"
    from decide_v1_confidence [OF this] have c: "0 \<le> confidence p" .
    from finish_v1_confidence [OF c, of atr last_price]
    show "0 \<le> snd (finish_v1 p atr last_price) \<and> snd (finish_v1 p atr last_price) \<le> 100 \<and>
      snd (finish_v1 p atr last_price) = min 100 (100 * confidence p / max_score_v1)"
      by (simp add: finish_v1_keeps_confidence)
  qed
  from v3 v1 show ?thesis by blast
qed

text \<open>
  C8.  On a daily frame with fewer than two rows the pivot calculation returns three
  NaN levels with the message \<open>Datos insuficientes\<close>, and the analysis returns an error
  text and no trade signal: the pivot error when the 5-minute data are usable, an
  earlier error text otherwise.
\<close>

theorem missing_pivots_abort:
  assumes "length (rows df_1d) < 2"
  shows "calculate_pivot_points (Downloaded df_1d) = (nan, nan, nan, df_1d, Some ''Datos insuficientes'') \<and>
         (\<exists>msg. analyze_pre_ny symbol download_5m download_4h (Downloaded df_1d) ind = Inl (Message msg)) \<and>
         (rows data_5m \<noteq> [] \<and> has_required_cols data_5m \<longrightarrow>
            analyze_pre_ny symbol (Downloaded data_5m) (Downloaded data_4h) (Downloaded df_1d) ind =
              Inl (Message (''Error de Pivotes (1D) para '' @ symbol @ '': Datos insuficientes'')))"
proof -
  have p: "calculate_pivot_points (Downloaded df_1d) = (nan, nan, nan, df_1d, Some ''Datos insuficientes'')"
    using assms by (simp add: calculate_pivot_points_def)
  have a: "\<exists>msg. analyze_pre_ny symbol download_5m download_4h (Downloaded df_1d) ind = Inl (Message msg)"
    by (simp add: analyze_pre_ny_def p Let_def split: download.splits)
  have b: "rows data_5m \<noteq> [] \<and> has_required_cols data_5m \<longrightarrow>
            analyze_pre_ny symbol (Downloaded data_5m) (Downloaded data_4h) (Downloaded df_1d) ind =
              Inl (Message (''Error de Pivotes (1D) para '' @ symbol @ '': Datos insuficientes''))"
    by (simp add: analyze_pre_ny_def p Let_def)
  from p a b show ?thesis by blast
qed

text \<open>
  What the repair of the levels achieves: with a positive ATR and five numeric
  levels, a decision whose text holds \<open>SHORT\<close> ends with stop > entry > TP1 > TP2 > TP3,
  and one whose text holds \<open>LONG\<close> with the mirror order.
\<close>

lemma levels_ordered_when_atr_positive:
  assumes "atr = Some a" and "0 < a" and "entry_p p = Some e" and "sl_p p = Some s"
    and "tp1_p p = Some t1" and "tp2_p p = Some t2" and "tp3_p p = Some t3"
  shows "py_in ''SHORT'' (decision_text (decision p)) \<Longrightarrow>
           \<exists>e' s' a1 a2 a3.
             entry_p (finish p atr last_price ms) = Some e' \<and> sl_p (finish p atr last_price ms) = Some s' \<and>
             tp1_p (finish p atr last_price ms) = Some a1 \<and> tp2_p (finish p atr last_price ms) = Some a2 \<and>
             tp3_p (finish p atr last_price ms) = Some a3 \<and>
             s' > e' \<and> e' > a1 \<and> a1 > a2 \<and> a2 > a3"
    and "\<not> py_in ''SHORT'' (decision_text (decision p)) \<Longrightarrow> py_in ''LONG'' (decision_text (decision p)) \<Longrightarrow>
           \<exists>e' s' a1 a2 a3.
             entry_p (finish p atr last_price ms) = Some e' \<and> sl_p (finish p atr last_price ms) = Some s' \<and>
             tp1_p (finish p atr last_price ms) = Some a1 \<and> tp2_p (finish p atr last_price ms) = Some a2 \<and>
             tp3_p (finish p atr last_price ms) = Some a3 \<and>
             s' < e' \<and> e' < a1 \<and> a1 < a2 \<and> a2 < a3"
  using assms
  by (auto simp: finish_def validate_levels_def isnan_def f_le_def f_ge_def f_add_def f_sub_def
      f_mul_def Let_def)

lemma quiet_market_has_zero_atr: "safe_atr (rows (dropna quiet_5m)) 14 = Some 0"
  by code_simp

text \<open>
  C1 fails on the code when the ATR is zero.  Twenty 5-minute rows without a trade at
  105 give an ATR of 0, and with five daily rows that leave a hole open at 100 the
  analysis emits \<open>SHORT_MODERADO\<close> with the stop at the entry, 105, and all three
  targets at 100: every repair adds or subtracts a multiple of the ATR, that is nothing.
\<close>

theorem levels_collapse_at_zero_atr:
  "map_sum (\<lambda>e. e) (\<lambda>s. (decision s, sl_p s, entry_p s, tp1_p s, tp2_p s, tp3_p s))
     (analyze_pre_ny ''BTC-USD'' (Downloaded quiet_5m) (Downloaded quiet_5m) (Downloaded week_1d) bearish_zone)
   = Inr (SHORT_MODERADO, Some 105, Some 105, Some 100, Some 100, Some 100)"
  by code_simp

text \<open>
  A second way to an incomplete order, in the decision logic alone: the branch of a
  historic gap above the price takes \<open>S2_hist\<close> as third target when no gap lies below,
  without the fall-back of the other branches, so a NaN \<open>S2_hist\<close> leaves a
  \<open>SHORT_GAP_HISTORICO\<close> without a third target.
\<close>

lemma third_target_missing:
  "map_sum (\<lambda>e. e) (\<lambda>p. (decision (finish p (Some 1) 105 ms), tp2_p (finish p (Some 1) 105 ms),
                           tp3_p (finish p (Some 1) 105 ms)))
     (decide 104 (Some 105) (Some 103) 105 (Some 1) False NO_GAP nan bearish [gap_over_price] [] nan nan)
   = Inr (SHORT_GAP_HISTORICO, Some 103, nan)"
  by (simp add: decide_def short_gap_historico_def finish_def validate_levels_def bearish_def
      gap_over_price_def isnan_def f_le_def f_ge_def f_add_def f_sub_def f_mul_def Let_def)

text \<open>
  A short gap against the structure and against two indicators: 2 - 0.5 - 0.5 - 0.5
  points, times 1.0, out of 6.
\<close>

lemma penalised_run:
  "map_sum (\<lambda>e. e) (\<lambda>s. (decision s, confidence_before_structure s, confidence_pct s))
     (analyze_pre_ny ''BTC-USD'' (Downloaded slow_5m) (Downloaded slow_5m) (Downloaded week_1d) contrary)
   = Inr (NO_OPERAR_Gap_SHORT (1 / 2), 1 / 2, 25 / 3)"
  by code_simp

text \<open>
  In the first script, a short gap with the structure, three full indicators and
  volume: 6 points against the ceiling of 5, shown as 100.
\<close>

lemma clamped_run_v1:
  "map_sum (\<lambda>e. e) (\<lambda>p. (confidence p, snd (finish_v1 p (Some 1) 105)))
     (decide_v1 103 (Some 104) (Some 102) 105 (Some 1) True SHORT_TO_FILL (Some 100) strong_bear
        [] [] nan nan)
   = Inr (6, 100)"
  by code_simp

theorem confidence_pct_bounds_witness:
  "(\<exists>s. analyze_pre_ny ''BTC-USD'' (Downloaded slow_5m) (Downloaded slow_5m) (Downloaded week_1d) contrary = Inr s \<and>
       confidence_before_structure s = 1 / 2 \<and> confidence_pct s = 25 / 3 \<and>
       0 \<le> confidence_pct s \<and> confidence_pct s \<le> 100) \<and>
   (\<exists>p. decide_v1 103 (Some 104) (Some 102) 105 (Some 1) True SHORT_TO_FILL (Some 100) strong_bear
          [] [] nan nan = Inr p \<and>
       confidence p = 6 \<and> snd (finish_v1 p (Some 1) 105) = 100 \<and>
       snd (finish_v1 p (Some 1) 105) = min 100 (100 * confidence p / max_score_v1))"
proof -
  from penalised_run obtain s where
    s: "analyze_pre_ny ''BTC-USD'' (Downloaded slow_5m) (Downloaded slow_5m) (Downloaded week_1d) contrary = Inr s"
    and v: "confidence_before_structure s = 1 / 2" "confidence_pct s = 25 / 3"
    by (cases "analyze_pre_ny ''BTC-USD'' (Downloaded slow_5m) (Downloaded slow_5m) (Downloaded week_1d) contrary")
      auto
  from clamped_run_v1 obtain p where
    p: "decide_v1 103 (Some 104) (Some 102) 105 (Some 1) True SHORT_TO_FILL (Some 100) strong_bear
          [] [] nan nan = Inr p"
    and w: "confidence p = 6" "snd (finish_v1 p (Some 1) 105) = 100"
    by (cases "decide_v1 103 (Some 104) (Some 102) 105 (Some 1) True SHORT_TO_FILL (Some 100) strong_bear
          [] [] nan nan") auto
  from confidence_pct_bounds
    [where symbol = "''BTC-USD''" and ?download_5m = "Downloaded slow_5m"
       and ?download_4h = "Downloaded slow_5m" and ?download_1d = "Downloaded week_1d"
       and ind = contrary and s = s
       and PP = 103 and ?R1.0 = "Some 104" and ?S1.0 = "Some 102" and last_price = 105
       and atr = "Some 1" and high_volume = True and gap_signal = SHORT_TO_FILL
       and gap_level = "Some 100" and ?ind1.0 = strong_bear and gaps_above = "[]"
       and gaps_below = "[]" and ?R2_hist = nan and ?S2_hist = nan and p = p]
    s v p w
  show ?thesis by blast
qed

theorem missing_pivots_abort_witness:
  "length (rows one_day) < 2 \<and>
   analyze_pre_ny ''BTC-USD'' (Downloaded quiet_5m) (Downloaded quiet_5m) (Downloaded one_day) bearish_zone =
     Inl (Message ''Error de Pivotes (1D) para BTC-USD: Datos insuficientes'')"
  using missing_pivots_abort [of one_day "''BTC-USD''" "Downloaded quiet_5m" "Downloaded quiet_5m"
      bearish_zone quiet_5m quiet_5m]
  by (simp add: one_day_def quiet_5m_def)

end
